theory Spec2Isabelle
  imports Main "HOL-Library.Word" "HOL-Library.AList"
begin

section \<open>Go standard library: strings\<close>

text \<open>
  \<^verbatim>\<open>strings.Split(s, sep)\<close> for a separator of one byte, which is how the source calls it
  (\<^verbatim>\<open>strings.Split(s.Spec.Domain, ".")\<close>): the pieces of \<open>s\<close> between the occurrences of the
  separator. The result is never empty; an empty \<open>s\<close> gives one empty piece.
\<close>

fun Split :: "string \<Rightarrow> char \<Rightarrow> string list" where
  "Split [] sep = [[]]"
| "Split (c # s) sep =
     (if c = sep then [] # Split s sep
      else (case Split s sep of [] \<Rightarrow> [[c]] | p # ps \<Rightarrow> (c # p) # ps))"

text \<open>\<^verbatim>\<open>strings.Join(elems, sep)\<close>: the elements with \<open>sep\<close> between each two of them.\<close>

fun Join :: "string list \<Rightarrow> string \<Rightarrow> string" where
  "Join [] sep = []"
| "Join [e] sep = e"
| "Join (e # es) sep = e @ sep @ Join es sep"

section \<open>Data model of api/v1alpha1\<close>

text \<open>A Go \<^verbatim>\<open>error\<close> value, identified by its message.\<close>

datatype error = Error string

text \<open>
  The fields of \<^verbatim>\<open>metav1.ObjectMeta\<close> that the code reads or writes. A deletion timestamp
  is \<open>None\<close> when it is zero.
\<close>

record ObjectMeta =
  Name :: string
  Namespace :: string
  Generation :: "64 word"
  Finalizers :: "string list"
  DeletionTimestamp :: "nat option"
  OwnerReferences :: "string list"

text \<open>
  The three reference types of the API: to a secret, to the owning directory (a name), to
  a parent (API version, kind and name).
\<close>

record LocalSecretReference =
  secretName :: string

record LocalLDAPDirectoryReference =
  directoryName :: string

record LocalObjectReference =
  APIVersion :: string
  Kind :: string
  refName :: string

text \<open>
  The phases and condition types; \<open>LDAPDirectoryPhaseUnset\<close> is the empty string of a
  status that was never written.
\<close>

datatype LDAPDirectoryPhase =
  LDAPDirectoryPhaseUnset | LDAPDirectoryPhasePending | LDAPDirectoryPhaseReady | LDAPDirectoryPhaseFailed

datatype LDAPDirectoryConditionType =
  LDAPDirectoryConditionTypePending | LDAPDirectoryConditionTypeReady | LDAPDirectoryConditionTypeFailed

record Condition =
  condType :: LDAPDirectoryConditionType
  condStatus :: bool
  condObservedGeneration :: "64 word"
  condReason :: string
  condMessage :: string

text \<open>
  \<^verbatim>\<open>LDAPDirectory\<close> with the fields of its spec that the functions below read; \<open>dirMeta\<close>,
  \<open>dirSpec\<close> and \<open>dirStatus\<close> are \<^verbatim>\<open>ObjectMeta\<close>, \<^verbatim>\<open>Spec\<close> and \<^verbatim>\<open>Status\<close>.
\<close>

record LDAPDirectorySpec =
  Image :: string
  Domain :: string
  Organization :: string
  CertificateSecretRef :: LocalSecretReference

record LDAPDirectoryStatus =
  Phase :: LDAPDirectoryPhase
  ObservedGeneration :: "64 word"
  Conditions :: "Condition list"

record LDAPDirectory =
  dirMeta :: ObjectMeta
  dirSpec :: LDAPDirectorySpec
  dirStatus :: LDAPDirectoryStatus

text \<open>
  Modelled from the spec: \<^verbatim>\<open>api.LDAPObjectSpec\<close>, whose declaration is missing from the
  sources. It is embedded in the spec of every directory object (section 6): the required
  reference to the owning directory and the optional reference to a parent object.
\<close>

record LDAPObjectSpec =
  DirectoryRef :: LocalLDAPDirectoryReference
  ParentRef :: "LocalObjectReference option"

text \<open>
  \<^verbatim>\<open>LDAPGroup\<close>; \<open>groupName\<close> is the field \<^verbatim>\<open>Name\<close> of \<^verbatim>\<open>LDAPGroupSpec\<close>, \<open>groupMeta\<close> and
  \<open>groupSpec\<close> are \<^verbatim>\<open>ObjectMeta\<close> and \<^verbatim>\<open>Spec\<close>.
\<close>

record LDAPGroupSpec = LDAPObjectSpec +
  groupName :: string
  Description :: string
  Members :: "string list"

record LDAPGroup =
  groupMeta :: ObjectMeta
  groupSpec :: LDAPGroupSpec

text \<open>
  Modelled from the spec: \<^verbatim>\<open>LDAPOrganizationalUnit\<close> and \<^verbatim>\<open>LDAPUser\<close>, the other two
  variants of a directory object (section 3), whose Go declarations are missing from the
  sources. The fields are those of their resource definitions (section 6); \<open>ouName\<close> and
  \<open>userName\<close> are the fields \<^verbatim>\<open>name\<close>.
\<close>

record LDAPOrganizationalUnitSpec = LDAPObjectSpec +
  ouName :: string
  ouDescription :: string

record LDAPOrganizationalUnit =
  ouMeta :: ObjectMeta
  ouSpec :: LDAPOrganizationalUnitSpec

record LDAPUserSpec = LDAPObjectSpec +
  Username :: string
  userName :: string
  Surname :: string
  Email :: string
  PasswordSecretRef :: "LocalSecretReference option"

record LDAPUser =
  userMeta :: ObjectMeta
  userSpec :: LDAPUserSpec

record Secret =
  secretMeta :: ObjectMeta
  Data :: "(string \<times> string) list"

text \<open>
  What a reference can resolve to. A directory, a group, an organizational unit and a user
  implement \<^verbatim>\<open>api.NamedLDAPObject\<close> (they have \<^verbatim>\<open>GetDistinguishedName\<close>); a secret does
  not.
\<close>

datatype object =
    ObjLDAPDirectory LDAPDirectory
  | ObjLDAPGroup LDAPGroup
  | ObjLDAPOrganizationalUnit LDAPOrganizationalUnit
  | ObjLDAPUser LDAPUser
  | ObjSecret Secret

text \<open>
  The three values \<^verbatim>\<open>(obj, ok, err)\<close> returned by \<^verbatim>\<open>Resolve\<close> of the reference library:
  \<^verbatim>\<open>(obj, true, nil)\<close> when the target exists, \<^verbatim>\<open>(nil, false, nil)\<close> when it does not,
  \<^verbatim>\<open>(nil, false, err)\<close> when the lookup fails.
\<close>

type_synonym resolution = "object option \<times> bool \<times> error option"

text \<open>
  The \<^verbatim>\<open>client.Reader\<close> as the reference library sees it: what each kind of reference,
  used by an owner in a given namespace, resolves to. \<^verbatim>\<open>Resolve\<close> is code of the library
  \<^verbatim>\<open>operator-utils/reference\<close>, so its outcome is a parameter of the model.
\<close>

record Reader =
  resolveObject :: "string \<Rightarrow> LocalObjectReference \<Rightarrow> resolution"
  resolveDirectory :: "string \<Rightarrow> LocalLDAPDirectoryReference \<Rightarrow> resolution"
  resolveSecret :: "string \<Rightarrow> LocalSecretReference \<Rightarrow> resolution"

section \<open>Distinguished names\<close>

text \<open>
  Modelled from the spec: the interface \<^verbatim>\<open>api.NamedLDAPObject\<close> (the capability ``produce
  a DN'' of section 9), whose declaration is missing from the sources: the directory and
  the three variants of a directory object implement it. The type assertion
  \<^verbatim>\<open>obj.(api.NamedLDAPObject)\<close> fails on \<^verbatim>\<open>nil\<close> and on an object without
  \<^verbatim>\<open>GetDistinguishedName\<close>.
\<close>

datatype NamedLDAPObject =
    NamedLDAPDirectory LDAPDirectory
  | NamedLDAPGroup LDAPGroup
  | NamedLDAPOrganizationalUnit LDAPOrganizationalUnit
  | NamedLDAPUser LDAPUser

fun asNamedLDAPObject :: "object option \<Rightarrow> NamedLDAPObject option" where
  "asNamedLDAPObject (Some (ObjLDAPDirectory d)) = Some (NamedLDAPDirectory d)"
| "asNamedLDAPObject (Some (ObjLDAPGroup g)) = Some (NamedLDAPGroup g)"
| "asNamedLDAPObject (Some (ObjLDAPOrganizationalUnit ou)) = Some (NamedLDAPOrganizationalUnit ou)"
| "asNamedLDAPObject (Some (ObjLDAPUser u)) = Some (NamedLDAPUser u)"
| "asNamedLDAPObject (Some (ObjSecret s)) = None"
| "asNamedLDAPObject None = None"

text \<open>
  \<^verbatim>\<open>LDAPDirectory.GetDistinguishedName\<close>: the Go function returns \<^verbatim>\<open>(string, error)\<close>;
  \<open>Inr\<close> is the string with a nil error.
\<close>

definition LDAPDirectory_GetDistinguishedName :: "LDAPDirectory \<Rightarrow> error + string" where
  "LDAPDirectory_GetDistinguishedName s =
     Inr (''dc='' @ Join (Split (Domain (dirSpec s)) (CHR ''.'')) '',dc='')"

text \<open>
  Modelled from the spec: the object whose name follows the relative name of an
  organizational unit or a user (section 4.2), whose \<^verbatim>\<open>GetDistinguishedName\<close> is missing
  from the sources. The directory reference is resolved first and must resolve; then the
  parent is the target of the parent reference when one is set, the directory otherwise.
  The spec gives the errors no text; they carry the texts of \<^verbatim>\<open>LDAPGroup\<close>.
\<close>

definition baseObject ::
    "Reader \<Rightarrow> string \<Rightarrow> 'a LDAPObjectSpec_scheme \<Rightarrow> error + NamedLDAPObject" where
  "baseObject reader ns objSpec =
     (case resolveDirectory reader ns (DirectoryRef objSpec) of
        (directory, ok, err) \<Rightarrow>
          if \<not> ok \<and> err = None then Inl (Error ''referenced directory not found'')
          else (case err of
            Some e \<Rightarrow> Inl e
          | None \<Rightarrow>
              (case asNamedLDAPObject directory of
                 None \<Rightarrow> Inl (Error ''directory is not a named ldap object'')
               | Some directoryObj \<Rightarrow>
                   (case ParentRef objSpec of
                      None \<Rightarrow> Inr directoryObj
                    | Some parentRef \<Rightarrow>
                        (case resolveObject reader ns parentRef of
                           (parent, ok, err) \<Rightarrow>
                             if \<not> ok \<and> err = None
                             then Inl (Error ''referenced parent not found'')
                             else (case err of
                               Some e \<Rightarrow> Inl e
                             | None \<Rightarrow>
                                 (case asNamedLDAPObject parent of
                                    None \<Rightarrow> Inl (Error ''parent is not a named ldap object'')
                                  | Some parentObj \<Rightarrow> Inr parentObj)))))))"

text \<open>
  \<^verbatim>\<open>GetDistinguishedName\<close> called through the interface. The case of a directory is
  \<^verbatim>\<open>LDAPDirectory.GetDistinguishedName\<close>; the case of a group is
  \<^verbatim>\<open>LDAPGroup.GetDistinguishedName\<close>, line by line, where the calls
  \<^verbatim>\<open>parentObj.GetDistinguishedName\<close> and \<^verbatim>\<open>directoryObj.GetDistinguishedName\<close> are this
  function again. The cases of an organizational unit and of a user are modelled from the
  spec (sections 4.2 and 8): the relative name is \<^verbatim>\<open>ou=\<close> with the name, \<^verbatim>\<open>uid=\<close> with the
  username. The recursion has no bound in the source, so a call that never returns is the
  value \<open>None\<close>.
\<close>

partial_function (option) GetDistinguishedName ::
    "Reader \<Rightarrow> NamedLDAPObject \<Rightarrow> (error + string) option" where
  "GetDistinguishedName reader obj =
     (case obj of
        NamedLDAPDirectory s \<Rightarrow> Some (LDAPDirectory_GetDistinguishedName s)
      | NamedLDAPGroup g \<Rightarrow>
          (case ParentRef (groupSpec g) of
             Some parentRef \<Rightarrow>
               (case resolveObject reader (Namespace (groupMeta g)) parentRef of
                  (parent, ok, err) \<Rightarrow>
                    if \<not> ok \<and> err = None
                    then Some (Inl (Error ''referenced parent not found''))
                    else (case err of
                      Some e \<Rightarrow> Some (Inl e)
                    | None \<Rightarrow>
                        (case asNamedLDAPObject parent of
                           None \<Rightarrow> Some (Inl (Error ''parent is not a named ldap object''))
                         | Some parentObj \<Rightarrow>
                             Option.bind (GetDistinguishedName reader parentObj)
                               (\<lambda>r. case r of
                                  Inl e \<Rightarrow> Some (Inl e)
                                | Inr parentDN \<Rightarrow>
                                    Some (Inr (''cn='' @ groupName (groupSpec g)
                                                 @ '','' @ parentDN))))))
           | None \<Rightarrow>
               (case resolveDirectory reader (Namespace (groupMeta g))
                       (DirectoryRef (groupSpec g)) of
                  (directory, ok, err) \<Rightarrow>
                    if \<not> ok \<and> err = None
                    then Some (Inl (Error ''referenced directory not found''))
                    else (case err of
                      Some e \<Rightarrow> Some (Inl e)
                    | None \<Rightarrow>
                        (case asNamedLDAPObject directory of
                           None \<Rightarrow> Some (Inl (Error ''directory is not a named ldap object''))
                         | Some directoryObj \<Rightarrow>
                             Option.bind (GetDistinguishedName reader directoryObj)
                               (\<lambda>r. case r of
                                  Inl e \<Rightarrow> Some (Inl e)
                                | Inr directoryDN \<Rightarrow>
                                    Some (Inr (''cn='' @ groupName (groupSpec g)
                                                 @ '','' @ directoryDN)))))))
      | NamedLDAPOrganizationalUnit ou \<Rightarrow>
          (case baseObject reader (Namespace (ouMeta ou)) (ouSpec ou) of
             Inl e \<Rightarrow> Some (Inl e)
           | Inr parentObj \<Rightarrow>
               Option.bind (GetDistinguishedName reader parentObj)
                 (\<lambda>r. case r of
                    Inl e \<Rightarrow> Some (Inl e)
                  | Inr parentDN \<Rightarrow>
                      Some (Inr (''ou='' @ ouName (ouSpec ou) @ '','' @ parentDN))))
      | NamedLDAPUser u \<Rightarrow>
          (case baseObject reader (Namespace (userMeta u)) (userSpec u) of
             Inl e \<Rightarrow> Some (Inl e)
           | Inr parentObj \<Rightarrow>
               Option.bind (GetDistinguishedName reader parentObj)
                 (\<lambda>r. case r of
                    Inl e \<Rightarrow> Some (Inl e)
                  | Inr parentDN \<Rightarrow>
                      Some (Inr (''uid='' @ Username (userSpec u) @ '','' @ parentDN)))))"

text \<open>\<^verbatim>\<open>LDAPGroup.GetDistinguishedName\<close>: the method of a group.\<close>

definition LDAPGroup_GetDistinguishedName ::
    "Reader \<Rightarrow> LDAPGroup \<Rightarrow> (error + string) option" where
  "LDAPGroup_GetDistinguishedName reader g = GetDistinguishedName reader (NamedLDAPGroup g)"

section \<open>Reference resolution\<close>

text \<open>\<^verbatim>\<open>ResolveReferences\<close> returns \<^verbatim>\<open>(bool, error)\<close>.\<close>

definition LDAPDirectory_ResolveReferences :: "Reader \<Rightarrow> LDAPDirectory \<Rightarrow> bool \<times> error option" where
  "LDAPDirectory_ResolveReferences reader s =
     (case resolveSecret reader (Namespace (dirMeta s)) (CertificateSecretRef (dirSpec s)) of
        (_, ok, err) \<Rightarrow>
          if \<not> ok \<or> err \<noteq> None then (ok, err) else (True, None))"

definition LDAPGroup_ResolveReferences :: "Reader \<Rightarrow> LDAPGroup \<Rightarrow> bool \<times> error option" where
  "LDAPGroup_ResolveReferences reader g =
     (case resolveDirectory reader (Namespace (groupMeta g)) (DirectoryRef (groupSpec g)) of
        (_, ok, err) \<Rightarrow>
          if \<not> ok \<or> err \<noteq> None then (ok, err)
          else (case ParentRef (groupSpec g) of
            Some parentRef \<Rightarrow>
              (case resolveObject reader (Namespace (groupMeta g)) parentRef of
                 (_, ok, err) \<Rightarrow>
                   if \<not> ok \<or> err \<noteq> None then (ok, err) else (True, None))
          | None \<Rightarrow> (True, None)))"

text \<open>
  The object that \<^verbatim>\<open>GetDistinguishedName\<close> asks for its name next, if it asks any: for a
  group the target of the parent reference when one is set, of the directory reference
  otherwise, when it resolves without error to a named object; for an organizational unit
  or a user the object given by \<open>baseObject\<close>; for a directory none.
\<close>

definition nextObject :: "Reader \<Rightarrow> NamedLDAPObject \<Rightarrow> NamedLDAPObject option" where
  "nextObject reader obj =
     (case obj of
        NamedLDAPDirectory s \<Rightarrow> None
      | NamedLDAPGroup g \<Rightarrow>
          (case (case ParentRef (groupSpec g) of
                   Some parentRef \<Rightarrow> resolveObject reader (Namespace (groupMeta g)) parentRef
                 | None \<Rightarrow> resolveDirectory reader (Namespace (groupMeta g))
                             (DirectoryRef (groupSpec g))) of
             (target, ok, err) \<Rightarrow>
               if ok \<and> err = None then asNamedLDAPObject target else None)
      | NamedLDAPOrganizationalUnit ou \<Rightarrow>
          (case baseObject reader (Namespace (ouMeta ou)) (ouSpec ou) of
             Inl e \<Rightarrow> None | Inr p \<Rightarrow> Some p)
      | NamedLDAPUser u \<Rightarrow>
          (case baseObject reader (Namespace (userMeta u)) (userSpec u) of
             Inl e \<Rightarrow> None | Inr p \<Rightarrow> Some p))"

text \<open>The object reached after \<open>n\<close> such steps, if the chain is that long.\<close>

fun parentChain :: "Reader \<Rightarrow> nat \<Rightarrow> NamedLDAPObject \<Rightarrow> NamedLDAPObject option" where
  "parentChain reader 0 obj = Some obj"
| "parentChain reader (Suc n) obj =
     (case nextObject reader obj of None \<Rightarrow> None | Some p \<Rightarrow> parentChain reader n p)"

text \<open>
  The chain of references from an object is finite and ends at a directory: every
  reference on it resolves to a named object, and the last one to an \<^verbatim>\<open>LDAPDirectory\<close>.
\<close>

inductive endsAtDirectory :: "Reader \<Rightarrow> NamedLDAPObject \<Rightarrow> bool" for reader where
  atDirectory: "endsAtDirectory reader (NamedLDAPDirectory s)"
| viaParent:
    "nextObject reader obj = Some p \<Longrightarrow> endsAtDirectory reader p \<Longrightarrow> endsAtDirectory reader obj"

text \<open>The chain from an object is finite: it reaches an object that asks no other.\<close>

inductive chainEnds :: "Reader \<Rightarrow> NamedLDAPObject \<Rightarrow> bool" for reader where
  chainLast: "nextObject reader obj = None \<Longrightarrow> chainEnds reader obj"
| chainStep: "nextObject reader obj = Some p \<Longrightarrow> chainEnds reader p \<Longrightarrow> chainEnds reader obj"

section \<open>The LDAPDirectory controller\<close>

definition FinalizerName :: string where
  "FinalizerName = ''ldap.gpu-ninja.com/finalizer''"

definition adminPasswordLength :: nat where
  "adminPasswordLength = 32"

text \<open>\<^verbatim>\<open>time.Duration\<close> counts nanoseconds.\<close>

definition Second :: int where
  "Second = 1000000000"

definition reconcileRetryInterval :: int where
  "reconcileRetryInterval = 5 * Second"

text \<open>\<^verbatim>\<open>ctrl.Result\<close>; \<^verbatim>\<open>ctrl.Result{}\<close> is \<open>emptyResult\<close>.\<close>

record Result =
  Requeue :: bool
  RequeueAfter :: int

definition emptyResult :: Result where
  "emptyResult = \<lparr>Requeue = False, RequeueAfter = 0\<rparr>"

text \<open>\<^verbatim>\<open>fmt.Errorf("<prefix>: %w", err)\<close>.\<close>

fun wrap :: "string \<Rightarrow> error \<Rightarrow> error" where
  "wrap prefix (Error msg) = Error (prefix @ '': '' @ msg)"

fun errorMessage :: "error \<Rightarrow> string" where
  "errorMessage (Error msg) = msg"

datatype EventType = EventTypeNormal | EventTypeWarning

record Event =
  eventType :: EventType
  eventReason :: string
  eventMessage :: string

text \<open>The fields of a stateful set that \<^verbatim>\<open>isStatefulSetReady\<close> reads.\<close>

record StatefulSet =
  Replicas :: "32 word"
  ReadyReplicas :: "32 word"

text \<open>
  The calls of the reconciler that write to the cluster, and the journal of one run: every
  event sent to the recorder and every write attempted, in order. A write is entered
  together with the finalizers that the stored \<^verbatim>\<open>LDAPDirectory\<close> record carries at that
  moment.
\<close>

datatype writeCall =
    AddFinalizerCall
  | RemoveFinalizerCall
  | UpdateStatusCall LDAPDirectoryPhase
  | CreateSecretCall
  | ApplyStatefulSetCall
  | ApplyServiceCall

datatype effect = Emitted Event | Wrote writeCall "string list"

text \<open>The objects of the cluster that the reconciler reads and writes, by namespace and name.\<close>

type_synonym key = "string \<times> string"

record Cluster =
  directories :: "key \<rightharpoonup> LDAPDirectory"
  secrets :: "key \<rightharpoonup> Secret"
  statefulSets :: "key \<rightharpoonup> StatefulSet"
  services :: "key set"
  journal :: "effect list"

text \<open>
  What the reconciler does not decide: for each call of the client or of a library the error
  it returns, if any, what the references resolve to, and what \<^verbatim>\<open>password.Generate\<close>
  returns for a given length.
\<close>

datatype callSite =
    GetDirectorySite
  | AddFinalizerSite
  | RemoveFinalizerSite
  | UpdateStatusSite
  | GetSecretSite
  | SetSecretOwnerSite
  | CreateSecretSite
  | SetStatefulSetOwnerSite
  | ApplyStatefulSetSite
  | SetServiceOwnerSite
  | ApplyServiceSite
  | GetStatefulSetSite

record Env =
  envReader :: Reader
  fault :: "callSite \<Rightarrow> error option"
  Generate :: "nat \<Rightarrow> error + string"

definition storedFinalizers :: "Cluster \<Rightarrow> key \<Rightarrow> string list" where
  "storedFinalizers c k = (case directories c k of None \<Rightarrow> [] | Some d \<Rightarrow> Finalizers (dirMeta d))"

definition recordEvent :: "EventType \<Rightarrow> string \<Rightarrow> string \<Rightarrow> Cluster \<Rightarrow> Cluster" where
  "recordEvent t reason message c =
     c\<lparr>journal := journal c
        @ [Emitted \<lparr>eventType = t, eventReason = reason, eventMessage = message\<rparr>]\<rparr>"

definition logWrite :: "key \<Rightarrow> writeCall \<Rightarrow> Cluster \<Rightarrow> Cluster" where
  "logWrite k w c = c\<lparr>journal := journal c @ [Wrote w (storedFinalizers c k)]\<rparr>"

text \<open>\<^verbatim>\<open>controllerutil.ContainsFinalizer\<close>, \<^verbatim>\<open>AddFinalizer\<close> and \<^verbatim>\<open>RemoveFinalizer\<close>.\<close>

definition ContainsFinalizer :: "LDAPDirectory \<Rightarrow> string \<Rightarrow> bool" where
  "ContainsFinalizer d f = (f \<in> set (Finalizers (dirMeta d)))"

definition AddFinalizer :: "LDAPDirectory \<Rightarrow> string \<Rightarrow> LDAPDirectory" where
  "AddFinalizer d f =
     (if f \<in> set (Finalizers (dirMeta d)) then d
      else d\<lparr>dirMeta := (dirMeta d)\<lparr>Finalizers := Finalizers (dirMeta d) @ [f]\<rparr>\<rparr>)"

definition RemoveFinalizer :: "LDAPDirectory \<Rightarrow> string \<Rightarrow> LDAPDirectory" where
  "RemoveFinalizer d f =
     d\<lparr>dirMeta := (dirMeta d)\<lparr>Finalizers := filter (\<lambda>x. x \<noteq> f) (Finalizers (dirMeta d))\<rparr>\<rparr>"

text \<open>
  \<^verbatim>\<open>controllerutil.CreateOrPatch\<close> with a function that changes the finalizers: on success
  the stored record and the local copy carry the new finalizers.
\<close>

definition patchFinalizers ::
    "Env \<Rightarrow> callSite \<Rightarrow> writeCall \<Rightarrow> key \<Rightarrow> LDAPDirectory \<Rightarrow> LDAPDirectory \<Rightarrow> Cluster
       \<Rightarrow> error option \<times> LDAPDirectory \<times> Cluster" where
  "patchFinalizers env site w k directory mutated c =
     (let c1 = logWrite k w c in
      case fault env site of
        Some e \<Rightarrow> (Some e, mutated, c1)
      | None \<Rightarrow>
          (None, mutated,
           c1\<lparr>directories := (directories c1)(k :=
                map_option (\<lambda>d. d\<lparr>dirMeta := (dirMeta d)\<lparr>Finalizers := Finalizers (dirMeta mutated)\<rparr>\<rparr>)
                  (directories c1 k))\<rparr>))"

text \<open>\<^verbatim>\<open>meta.SetStatusCondition\<close>: the first condition of the same type is replaced, or the new one is appended.\<close>

fun SetStatusCondition :: "Condition list \<Rightarrow> Condition \<Rightarrow> Condition list" where
  "SetStatusCondition [] new = [new]"
| "SetStatusCondition (x # xs) new =
     (if condType x = condType new then new # xs else x # SetStatusCondition xs new)"

text \<open>
  \<^verbatim>\<open>updater.UpdateStatus\<close> with the function that \<^verbatim>\<open>markPending\<close>, \<^verbatim>\<open>markReady\<close> and
  \<^verbatim>\<open>markFailed\<close> pass: the generation observed, the phase and one condition are set, on the
  local copy and, when the update succeeds, on the stored record.
\<close>

definition UpdateStatus ::
    "Env \<Rightarrow> key \<Rightarrow> LDAPDirectory \<Rightarrow> LDAPDirectoryPhase \<Rightarrow> Condition \<Rightarrow> Cluster
       \<Rightarrow> error option \<times> LDAPDirectory \<times> Cluster" where
  "UpdateStatus env k directory phase cond c =
     (let status = \<lparr>Phase = phase,
                    ObservedGeneration = Generation (dirMeta directory),
                    Conditions = SetStatusCondition (Conditions (dirStatus directory)) cond\<rparr>;
          directory1 = directory\<lparr>dirStatus := status\<rparr>;
          c1 = logWrite k (UpdateStatusCall phase) c
      in case fault env UpdateStatusSite of
           Some e \<Rightarrow> (Some e, directory1, c1)
         | None \<Rightarrow>
             (None, directory1,
              c1\<lparr>directories := (directories c1)(k :=
                   map_option (\<lambda>d. d\<lparr>dirStatus := status\<rparr>) (directories c1 k))\<rparr>))"

definition markPending ::
    "Env \<Rightarrow> key \<Rightarrow> LDAPDirectory \<Rightarrow> Cluster \<Rightarrow> error option \<times> LDAPDirectory \<times> Cluster" where
  "markPending env k directory c =
     (case UpdateStatus env k directory LDAPDirectoryPhasePending
             \<lparr>condType = LDAPDirectoryConditionTypePending, condStatus = True,
              condObservedGeneration = Generation (dirMeta directory),
              condReason = ''Pending'', condMessage = ''LDAP directory is pending''\<rparr> c of
        (Some e, directory1, c1) \<Rightarrow> (Some (wrap ''failed to mark as pending'' e), directory1, c1)
      | (None, directory1, c1) \<Rightarrow> (None, directory1, c1))"

definition markReady ::
    "Env \<Rightarrow> key \<Rightarrow> LDAPDirectory \<Rightarrow> Cluster \<Rightarrow> error option \<times> LDAPDirectory \<times> Cluster" where
  "markReady env k directory c =
     (case UpdateStatus env k directory LDAPDirectoryPhaseReady
             \<lparr>condType = LDAPDirectoryConditionTypeReady, condStatus = True,
              condObservedGeneration = Generation (dirMeta directory),
              condReason = ''Ready'', condMessage = ''LDAP directory is ready''\<rparr> c of
        (Some e, directory1, c1) \<Rightarrow> (Some (wrap ''failed to mark as ready'' e), directory1, c1)
      | (None, directory1, c1) \<Rightarrow> (None, directory1, c1))"

text \<open>\<^verbatim>\<open>markFailed\<close> returns nothing: an error of the update is only logged.\<close>

definition markFailed ::
    "Env \<Rightarrow> key \<Rightarrow> LDAPDirectory \<Rightarrow> error \<Rightarrow> Cluster \<Rightarrow> LDAPDirectory \<times> Cluster" where
  "markFailed env k directory err c =
     (case UpdateStatus env k directory LDAPDirectoryPhaseFailed
             \<lparr>condType = LDAPDirectoryConditionTypeFailed, condStatus = True,
              condObservedGeneration = Generation (dirMeta directory),
              condReason = ''Failed'', condMessage = errorMessage err\<rparr> c of
        (_, directory1, c1) \<Rightarrow> (directory1, c1))"

text \<open>The event, the status and the result of every step that fails with \<^verbatim>\<open>markFailed\<close>.\<close>

definition failWith ::
    "Env \<Rightarrow> key \<Rightarrow> LDAPDirectory \<Rightarrow> string \<Rightarrow> string \<Rightarrow> error \<Rightarrow> Cluster
       \<Rightarrow> (Result \<times> error option) \<times> Cluster" where
  "failWith env k directory eventPrefix errorPrefix err c =
     (let c1 = recordEvent EventTypeWarning ''Failed'' (eventPrefix @ '': '' @ errorMessage err) c;
          (directory1, c2) = markFailed env k directory (wrap errorPrefix err) c1
      in ((emptyResult, Some (wrap errorPrefix err)), c2))"

definition resourceName :: "LDAPDirectory \<Rightarrow> key" where
  "resourceName directory = (Namespace (dirMeta directory), ''ldap-'' @ Name (dirMeta directory))"

definition adminPasswordSecretName :: "LDAPDirectory \<Rightarrow> key" where
  "adminPasswordSecretName directory =
     (Namespace (dirMeta directory), ''ldap-'' @ Name (dirMeta directory) @ ''-admin-password'')"

text \<open>
  \<^verbatim>\<open>isStatefulSetReady\<close>. A stateful set that is not found is an error of \<^verbatim>\<open>r.Get\<close> as well.
\<close>

definition isStatefulSetReady :: "Env \<Rightarrow> LDAPDirectory \<Rightarrow> Cluster \<Rightarrow> error + bool" where
  "isStatefulSetReady env directory c =
     (case fault env GetStatefulSetSite of
        Some e \<Rightarrow> Inl (wrap ''failed to get statefulset'' e)
      | None \<Rightarrow>
          (case statefulSets c (resourceName directory) of
             None \<Rightarrow> Inl (wrap ''failed to get statefulset'' (Error ''not found''))
           | Some sts \<Rightarrow> Inr (ReadyReplicas sts = Replicas sts)))"

text \<open>
  \<^verbatim>\<open>updater.CreateOrUpdateFromTemplate\<close> for the stateful set: the template asks for one
  replica; the status of a stateful set that exists is kept.
\<close>

definition applyStatefulSet :: "key \<Rightarrow> Cluster \<Rightarrow> Cluster" where
  "applyStatefulSet k c =
     c\<lparr>statefulSets := (statefulSets c)(k \<mapsto>
          (case statefulSets c k of
             None \<Rightarrow> \<lparr>Replicas = 1, ReadyReplicas = 0\<rparr>
           | Some sts \<Rightarrow> sts\<lparr>Replicas := 1\<rparr>))\<rparr>"

text \<open>\<^verbatim>\<open>Reconcile\<close>, from ``Reconciling statefulset'' to its end.\<close>

definition Reconcile_resources ::
    "Env \<Rightarrow> key \<Rightarrow> LDAPDirectory \<Rightarrow> Cluster \<Rightarrow> (Result \<times> error option) \<times> Cluster" where
  "Reconcile_resources env k directory c =
     (case fault env SetStatefulSetOwnerSite of
        Some e \<Rightarrow>
          failWith env k directory ''Failed to generate statefulset template''
            ''failed to generate statefulset template'' (wrap ''failed to set owner reference'' e) c
      | None \<Rightarrow>
     (let c1 = logWrite k ApplyStatefulSetCall c in
      case fault env ApplyStatefulSetSite of
        Some e \<Rightarrow>
          failWith env k directory ''Failed to reconcile statefulset''
            ''failed to reconcile statefulset'' e c1
      | None \<Rightarrow>
     (let c2 = applyStatefulSet (resourceName directory) c1 in
      case fault env SetServiceOwnerSite of
        Some e \<Rightarrow>
          failWith env k directory ''Failed to generate service template''
            ''failed to generate service template'' (wrap ''failed to set controller reference'' e) c2
      | None \<Rightarrow>
     (let c3 = logWrite k ApplyServiceCall c2 in
      case fault env ApplyServiceSite of
        Some e \<Rightarrow>
          failWith env k directory ''Failed to reconcile service''
            ''failed to reconcile service'' e c3
      | None \<Rightarrow>
     (let c4 = c3\<lparr>services := insert (resourceName directory) (services c3)\<rparr> in
      case isStatefulSetReady env directory c4 of
        Inl e \<Rightarrow>
          failWith env k directory ''Failed to check if statefulset is ready''
            ''failed to check if statefulset is ready'' e c4
      | Inr ready \<Rightarrow>
          if \<not> ready then
            (let c5 = recordEvent EventTypeNormal ''Pending''
                        ''Waiting for statefulset to become ready'' c4
             in case markPending env k directory c5 of
                  (Some e, directory1, c6) \<Rightarrow> ((emptyResult, Some e), c6)
                | (None, directory1, c6) \<Rightarrow>
                    ((\<lparr>Requeue = False, RequeueAfter = reconcileRetryInterval\<rparr>, None), c6))
          else if Phase (dirStatus directory) \<noteq> LDAPDirectoryPhaseReady then
            (let c5 = recordEvent EventTypeNormal ''Created'' ''Successfully created'' c4
             in case markReady env k directory c5 of
                  (Some e, directory1, c6) \<Rightarrow> ((emptyResult, Some e), c6)
                | (None, directory1, c6) \<Rightarrow> ((emptyResult, None), c6))
          else ((emptyResult, None), c4))))))"

text \<open>
  \<^verbatim>\<open>Reconcile\<close>, the admin password secret: \<open>Inl\<close> is the early return of \<^verbatim>\<open>Reconcile\<close>
  with an error, \<open>Inr\<close> the cluster with which it goes on.
\<close>

definition Reconcile_adminPassword ::
    "Env \<Rightarrow> key \<Rightarrow> LDAPDirectory \<Rightarrow> Cluster \<Rightarrow> (error \<times> Cluster) + Cluster" where
  "Reconcile_adminPassword env k directory c =
     (case fault env GetSecretSite of
        Some e \<Rightarrow> Inl (wrap ''failed to get admin password secret'' e, c)
      | None \<Rightarrow>
          (case secrets c (adminPasswordSecretName directory) of
             Some adminPasswordSecret \<Rightarrow> Inr c
           | None \<Rightarrow>
               (case Generate env adminPasswordLength of
                  Inl e \<Rightarrow> Inl (wrap ''failed to generate random admin password'' e, c)
                | Inr pw \<Rightarrow>
                    (case fault env SetSecretOwnerSite of
                       Some e \<Rightarrow>
                         Inl (wrap ''failed to set owner reference on admin password secret'' e, c)
                     | None \<Rightarrow>
                         (let adminPasswordSecret =
                                \<lparr>secretMeta =
                                   \<lparr>Name = snd (adminPasswordSecretName directory),
                                    Namespace = Namespace (dirMeta directory),
                                    Generation = 0, Finalizers = [], DeletionTimestamp = None,
                                    OwnerReferences = [Name (dirMeta directory)]\<rparr>,
                                 Data = [(''password'', pw)]\<rparr>;
                              c1 = logWrite k CreateSecretCall c
                          in case fault env CreateSecretSite of
                               Some e \<Rightarrow>
                                 Inl (wrap ''failed to create admin password secret'' e, c1)
                             | None \<Rightarrow>
                                 Inr (c1\<lparr>secrets := (secrets c1)
                                        (adminPasswordSecretName directory \<mapsto> adminPasswordSecret)\<rparr>))))))"

text \<open>\<^verbatim>\<open>Reconcile\<close> of an object that is not being deleted, from \<^verbatim>\<open>ResolveReferences\<close> on.\<close>

definition Reconcile_references ::
    "Env \<Rightarrow> key \<Rightarrow> LDAPDirectory \<Rightarrow> Cluster \<Rightarrow> (Result \<times> error option) \<times> Cluster" where
  "Reconcile_references env k directory c =
     (case LDAPDirectory_ResolveReferences (envReader env) directory of
        (ok, err) \<Rightarrow>
          if \<not> ok \<and> err = None then
            (let c1 = recordEvent EventTypeWarning ''NotReady''
                        ''Not all references are resolvable'' c
             in case markPending env k directory c1 of
                  (Some e, directory1, c2) \<Rightarrow> ((emptyResult, Some e), c2)
                | (None, directory1, c2) \<Rightarrow>
                    ((\<lparr>Requeue = False, RequeueAfter = reconcileRetryInterval\<rparr>, None), c2))
          else (case err of
            Some e \<Rightarrow>
              failWith env k directory ''Failed to resolve references''
                ''failed to resolve references'' e c
          | None \<Rightarrow>
              (case Reconcile_adminPassword env k directory c of
                 Inl (e, c1) \<Rightarrow> ((emptyResult, Some e), c1)
               | Inr c1 \<Rightarrow> Reconcile_resources env k directory c1)))"

text \<open>\<^verbatim>\<open>Reconcile\<close> of an object with a deletion timestamp.\<close>

definition Reconcile_deleting ::
    "Env \<Rightarrow> key \<Rightarrow> LDAPDirectory \<Rightarrow> Cluster \<Rightarrow> (Result \<times> error option) \<times> Cluster" where
  "Reconcile_deleting env k directory c =
     (if ContainsFinalizer directory FinalizerName then
        (case patchFinalizers env RemoveFinalizerSite RemoveFinalizerCall k directory
                (RemoveFinalizer directory FinalizerName) c of
           (Some e, directory1, c1) \<Rightarrow>
             ((emptyResult, Some (wrap ''failed to remove finalizer'' e)), c1)
         | (None, directory1, c1) \<Rightarrow> ((emptyResult, None), c1))
      else ((emptyResult, None), c))"

text \<open>
  \<^verbatim>\<open>LDAPDirectoryReconciler.Reconcile\<close> for the request \<open>req\<close> (namespace and name). It
  returns \<^verbatim>\<open>(ctrl.Result, error)\<close> and leaves the cluster changed.
\<close>

definition Reconcile :: "Env \<Rightarrow> Cluster \<Rightarrow> key \<Rightarrow> (Result \<times> error option) \<times> Cluster" where
  "Reconcile env c req =
     (case fault env GetDirectorySite of
        Some e \<Rightarrow> ((emptyResult, Some e), c)
      | None \<Rightarrow>
          (case directories c req of
             None \<Rightarrow> ((emptyResult, None), c)
           | Some directory \<Rightarrow>
               (case (if \<not> ContainsFinalizer directory FinalizerName
                      then patchFinalizers env AddFinalizerSite AddFinalizerCall req directory
                             (AddFinalizer directory FinalizerName) c
                      else (None, directory, c)) of
                  (Some e, directory1, c1) \<Rightarrow>
                    ((emptyResult, Some (wrap ''failed to add finalizer'' e)), c1)
                | (None, directory1, c1) \<Rightarrow>
                    if DeletionTimestamp (dirMeta directory1) \<noteq> None
                    then Reconcile_deleting env req directory1 c1
                    else Reconcile_references env req directory1 c1)))"

section \<open>The directory client and the attribute mapper\<close>

text \<open>
  Modelled from the spec: the \<^verbatim>\<open>DirectoryEntry\<close> of section 3, a distinguished name with
  attribute names and their values, in order. The package \<^verbatim>\<open>internal/directory\<close> that
  defines it is missing from the sources; only its test is there.
\<close>

type_synonym attributes = "(string \<times> string list) list"

record DirectoryEntry =
  entryDN :: string
  entryAttributes :: attributes

text \<open>
  The typed entries that the test of the client builds: an organizational unit (name,
  description), a group (name, description, members) and a user (username, name, surname,
  email, password), each after its distinguished name.
\<close>

datatype entry =
    OrganizationalUnit string string string
  | Group string string string "string list"
  | User string string string string string string

text \<open>
  Modelled from the spec: an optional attribute of the attribute mapper (section 4.3),
  whose source is missing. A field that is empty gives no attribute at all, never an
  attribute with an empty value.
\<close>

definition optionalAttribute :: "string \<Rightarrow> string \<Rightarrow> attributes" where
  "optionalAttribute name v = (if v = [] then [] else [(name, [v])])"

text \<open>
  Modelled from the spec: the attribute mapper of \<^verbatim>\<open>internal/directory\<close> (section 4.3),
  whose source is missing. \<open>hash\<close> is the one-way function applied to the password.
\<close>

fun mapEntry :: "(string \<Rightarrow> string) \<Rightarrow> entry \<Rightarrow> DirectoryEntry" where
  "mapEntry hash (OrganizationalUnit distinguishedName name description) =
     \<lparr>entryDN = distinguishedName,
      entryAttributes = [(''ou'', [name])] @ optionalAttribute ''description'' description\<rparr>"
| "mapEntry hash (Group distinguishedName name description members) =
     \<lparr>entryDN = distinguishedName,
      entryAttributes = [(''cn'', [name])] @ optionalAttribute ''description'' description
        @ (if members = [] then [] else [(''member'', members)])\<rparr>"
| "mapEntry hash (User distinguishedName username name surname email password) =
     \<lparr>entryDN = distinguishedName,
      entryAttributes = [(''cn'', [name]), (''sn'', [surname]), (''uid'', [username])]
        @ optionalAttribute ''mail'' email
        @ (if password = [] then [] else [(''userPassword'', [hash password])])\<rparr>"

text \<open>
  Modelled from the spec: the remote directory behind the client of section 4.4, whose
  source is missing: the entries stored, by distinguished name, and the error of
  \<^verbatim>\<open>connect\<close> when the endpoint cannot be reached.
\<close>

record DirectoryServer =
  entries :: "string \<rightharpoonup> attributes"
  connectError :: "error option"

text \<open>
  Modelled from the spec: the modifications that \<^verbatim>\<open>createOrUpdateEntry\<close> sends (section
  4.4): an attribute is added, removed entirely, or replaced as a whole.
\<close>

datatype modification =
    AddAttribute string "string list"
  | DeleteAttribute string
  | ReplaceAttribute string "string list"

text \<open>
  Modelled from the spec: the diff of \<^verbatim>\<open>createOrUpdateEntry\<close> for one attribute (section
  4.4), whose source is missing. An attribute only in the desired entry is added, one only
  in the existing entry is removed, one whose values differ (some value added or removed)
  is replaced as a whole.
\<close>

definition attributeDiff :: "attributes \<Rightarrow> attributes \<Rightarrow> string \<Rightarrow> modification list" where
  "attributeDiff existing desired name =
     (case (map_of existing name, map_of desired name) of
        (None, None) \<Rightarrow> []
      | (None, Some vs) \<Rightarrow> [AddAttribute name vs]
      | (Some old, None) \<Rightarrow> [DeleteAttribute name]
      | (Some old, Some vs) \<Rightarrow> if set old = set vs then [] else [ReplaceAttribute name vs])"

text \<open>
  Modelled from the spec: the diff of \<^verbatim>\<open>createOrUpdateEntry\<close> (section 4.4), over every
  attribute name of the existing and of the desired entry.
\<close>

definition entryDiff :: "attributes \<Rightarrow> attributes \<Rightarrow> modification list" where
  "entryDiff existing desired =
     concat (map (attributeDiff existing desired) (remdups (map fst existing @ map fst desired)))"

text \<open>
  Modelled from the spec: what one modification does to the attributes stored (section 4.4).
\<close>

fun applyModification :: "modification \<Rightarrow> attributes \<Rightarrow> attributes" where
  "applyModification (AddAttribute name vs) attrs = AList.update name vs attrs"
| "applyModification (DeleteAttribute name) attrs = AList.delete name attrs"
| "applyModification (ReplaceAttribute name vs) attrs = AList.update name vs attrs"

text \<open>
  Modelled from the spec: the outcomes of the client other than success (section 4.4),
  \<^verbatim>\<open>NotFound\<close> and the error of the connection.
\<close>

datatype clientError = NotFound | ConnectionError error

text \<open>
  Modelled from the spec: \<^verbatim>\<open>getEntry\<close> of the directory client (section 4.4), whose source
  is missing.
\<close>

definition getEntry :: "DirectoryServer \<Rightarrow> string \<Rightarrow> clientError + DirectoryEntry" where
  "getEntry server distinguishedName =
     (case connectError server of
        Some e \<Rightarrow> Inl (ConnectionError e)
      | None \<Rightarrow>
          (case entries server distinguishedName of
             None \<Rightarrow> Inl NotFound
           | Some attrs \<Rightarrow> Inr \<lparr>entryDN = distinguishedName, entryAttributes = attrs\<rparr>))"

text \<open>
  Modelled from the spec: \<^verbatim>\<open>createOrUpdateEntry\<close> of the directory client (section 4.4),
  whose source is missing. The spec fixes the flag returned when the entry is created
  (true) and when the diff is empty (false); for an update that changes attributes the test
  of the client (\<^verbatim>\<open>client_test.go\<close>, ``Remove the description'') expects false.
\<close>

definition createOrUpdateEntry ::
    "DirectoryServer \<Rightarrow> DirectoryEntry \<Rightarrow> (bool \<times> clientError option) \<times> DirectoryServer" where
  "createOrUpdateEntry server entry =
     (case connectError server of
        Some e \<Rightarrow> ((False, Some (ConnectionError e)), server)
      | None \<Rightarrow>
          (case entries server (entryDN entry) of
             None \<Rightarrow>
               ((True, None),
                server\<lparr>entries := (entries server)(entryDN entry \<mapsto> entryAttributes entry)\<rparr>)
           | Some existing \<Rightarrow>
               ((False, None),
                server\<lparr>entries := (entries server)(entryDN entry \<mapsto>
                  fold applyModification (entryDiff existing (entryAttributes entry)) existing)\<rparr>)))"

section \<open>Example objects\<close>

text \<open>
  The directory \<^verbatim>\<open>example.com\<close>, the group \<^verbatim>\<open>admins\<close> directly under it, a group \<^verbatim>\<open>ops\<close>
  under \<^verbatim>\<open>admins\<close>, two groups that name each other as parent, and a group whose parent
  does not exist.
\<close>

definition exampleMeta :: "string \<Rightarrow> ObjectMeta" where
  "exampleMeta n = \<lparr>Name = n, Namespace = ''default'', Generation = 1, Finalizers = [],
     DeletionTimestamp = None, OwnerReferences = []\<rparr>"

definition exampleDirectory :: LDAPDirectory where
  "exampleDirectory =
     \<lparr>dirMeta = exampleMeta ''example'',
      dirSpec = \<lparr>Image = ''openldap'', Domain = ''example.com'', Organization = ''Acme'',
                 CertificateSecretRef = \<lparr>secretName = ''server-cert''\<rparr>\<rparr>,
      dirStatus = \<lparr>Phase = LDAPDirectoryPhaseUnset, ObservedGeneration = 0, Conditions = []\<rparr>\<rparr>"

definition exampleGroup :: "string \<Rightarrow> string \<Rightarrow> string option \<Rightarrow> LDAPGroup" where
  "exampleGroup n dir parent =
     \<lparr>groupMeta = exampleMeta n,
      groupSpec = \<lparr>DirectoryRef = \<lparr>directoryName = dir\<rparr>,
                   ParentRef = map_option
                     (\<lambda>p. \<lparr>APIVersion = ''ldap.gpu-ninja.com/v1alpha1'', Kind = ''LDAPGroup'',
                            refName = p\<rparr>) parent,
                   groupName = n, Description = [], Members = [''cn=admin,dc=example,dc=com'']\<rparr>\<rparr>"

definition adminsGroup :: LDAPGroup where
  "adminsGroup = exampleGroup ''admins'' ''example'' None"

definition opsGroup :: LDAPGroup where
  "opsGroup = exampleGroup ''ops'' ''example'' (Some ''admins'')"

definition loopA :: LDAPGroup where
  "loopA = exampleGroup ''loop-a'' ''example'' (Some ''loop-b'')"

definition loopB :: LDAPGroup where
  "loopB = exampleGroup ''loop-b'' ''example'' (Some ''loop-a'')"

definition orphanGroup :: LDAPGroup where
  "orphanGroup = exampleGroup ''orphan'' ''example'' (Some ''missing'')"

definition strayGroup :: LDAPGroup where
  "strayGroup = exampleGroup ''stray'' ''nowhere'' None"

text \<open>
  Further objects: the organizational unit \<^verbatim>\<open>users\<close> under the directory, the user
  \<^verbatim>\<open>alice\<close> and the group \<^verbatim>\<open>devs\<close> under that unit, a group whose parent is on the cycle,
  and a group under \<^verbatim>\<open>admins\<close> whose directory does not exist.
\<close>

definition exampleParentRef :: "string \<Rightarrow> string \<Rightarrow> LocalObjectReference" where
  "exampleParentRef k n = \<lparr>APIVersion = ''ldap.gpu-ninja.com/v1alpha1'', Kind = k, refName = n\<rparr>"

definition usersUnit :: LDAPOrganizationalUnit where
  "usersUnit =
     \<lparr>ouMeta = exampleMeta ''users'',
      ouSpec = \<lparr>DirectoryRef = \<lparr>directoryName = ''example''\<rparr>, ParentRef = None,
                ouName = ''users'', ouDescription = []\<rparr>\<rparr>"

definition aliceUser :: LDAPUser where
  "aliceUser =
     \<lparr>userMeta = exampleMeta ''alice'',
      userSpec = \<lparr>DirectoryRef = \<lparr>directoryName = ''example''\<rparr>,
                  ParentRef = Some (exampleParentRef ''LDAPOrganizationalUnit'' ''users''),
                  Username = ''alice'', userName = ''Alice Doe'', Surname = ''Doe'',
                  Email = [], PasswordSecretRef = None\<rparr>\<rparr>"

definition devsGroup :: LDAPGroup where
  "devsGroup =
     (exampleGroup ''devs'' ''example'' None)
       \<lparr>groupSpec := (groupSpec (exampleGroup ''devs'' ''example'' None))
          \<lparr>ParentRef := Some (exampleParentRef ''LDAPOrganizationalUnit'' ''users'')\<rparr>\<rparr>"

definition tailGroup :: LDAPGroup where
  "tailGroup = exampleGroup ''tail'' ''example'' (Some ''loop-a'')"

definition driftGroup :: LDAPGroup where
  "driftGroup = exampleGroup ''drift'' ''nowhere'' (Some ''admins'')"

definition exampleReader :: Reader where
  "exampleReader =
     \<lparr>resolveObject = (\<lambda>ns ref.
         if refName ref = ''admins'' then (Some (ObjLDAPGroup adminsGroup), True, None)
         else if refName ref = ''users'' then (Some (ObjLDAPOrganizationalUnit usersUnit), True, None)
         else if refName ref = ''loop-a'' then (Some (ObjLDAPGroup loopA), True, None)
         else if refName ref = ''loop-b'' then (Some (ObjLDAPGroup loopB), True, None)
         else (None, False, None)),
      resolveDirectory = (\<lambda>ns ref.
         if directoryName ref = ''example'' then (Some (ObjLDAPDirectory exampleDirectory), True, None)
         else (None, False, None)),
      resolveSecret = (\<lambda>ns ref.
         if secretName ref = ''server-cert''
         then (Some (ObjSecret \<lparr>secretMeta = exampleMeta ''server-cert'', Data = []\<rparr>), True, None)
         else (None, False, None))\<rparr>"

section \<open>Example cluster\<close>

text \<open>
  A cluster that holds the directory \<^verbatim>\<open>example.com\<close> and nothing else, and an environment in
  which every call succeeds.
\<close>

definition exampleEnv :: Env where
  "exampleEnv = \<lparr>envReader = exampleReader, fault = (\<lambda>site. None),
     Generate = (\<lambda>n. Inr (replicate n (CHR ''x'')))\<rparr>"

definition exampleCluster :: Cluster where
  "exampleCluster = \<lparr>directories = [(''default'', ''example'') \<mapsto> exampleDirectory],
     secrets = Map.empty, statefulSets = Map.empty, services = {}, journal = []\<rparr>"

text \<open>
  Two more environments: one in which the certificate secret of the directory does not
  exist, and one in which, besides, every status update fails.
\<close>

definition unresolvedEnv :: Env where
  "unresolvedEnv =
     exampleEnv\<lparr>envReader := exampleReader\<lparr>resolveSecret := \<lambda>ns ref. (None, False, None)\<rparr>\<rparr>"

definition brokenStatusEnv :: Env where
  "brokenStatusEnv =
     unresolvedEnv\<lparr>fault := \<lambda>site. if site = UpdateStatusSite then Some (Error ''boom'') else None\<rparr>"

section \<open>Example directory entries\<close>

text \<open>
  A directory server without entries, the organizational unit and the user of the tests of
  the client, and a stand-in for the hash of a password.
\<close>

definition exampleServer :: DirectoryServer where
  "exampleServer = \<lparr>entries = Map.empty, connectError = None\<rparr>"

definition usersOU :: "string \<Rightarrow> entry" where
  "usersOU description = OrganizationalUnit ''ou=users,dc=example,dc=com'' ''users'' description"

definition johnUser :: "string \<Rightarrow> entry" where
  "johnUser email =
     User ''uid=john,dc=example,dc=com'' ''john'' ''John Doe'' ''Doe'' email []"

definition exampleHash :: "string \<Rightarrow> string" where
  "exampleHash password = ''{ARGON2}$argon2id$'' @ rev password"

section \<open>Notions used in the proofs\<close>

text \<open>
  A step of the reconciler from cluster \<open>c\<close> to \<open>c'\<close> that leaves the finalizers of the
  record \<open>k\<close> alone: it only extends the journal, every write it enters carries these
  finalizers, and no secret that exists is changed. A strict step creates no secret either.
\<close>

definition frame :: "bool \<Rightarrow> key \<Rightarrow> Cluster \<Rightarrow> Cluster \<Rightarrow> bool" where
  "frame strict k c c' =
     (storedFinalizers c' k = storedFinalizers c k
      \<and> (\<forall>k' s. secrets c k' = Some s \<longrightarrow> secrets c' k' = Some s)
      \<and> (strict \<longrightarrow> secrets c' = secrets c)
      \<and> (\<exists>js. journal c' = journal c @ js
            \<and> (\<forall>w fins. Wrote w fins \<in> set js \<longrightarrow>
                  fins = storedFinalizers c k \<and> w \<noteq> AddFinalizerCall \<and> w \<noteq> RemoveFinalizerCall
                  \<and> (strict \<longrightarrow> w \<noteq> CreateSecretCall))))"

text \<open>The cluster after the finalizer has been ensured on the record \<open>d\<close>.\<close>

definition liveCluster :: "Env \<Rightarrow> Cluster \<Rightarrow> key \<Rightarrow> LDAPDirectory \<Rightarrow> Cluster" where
  "liveCluster env c req d =
     (if ContainsFinalizer d FinalizerName then c
      else snd (snd (patchFinalizers env AddFinalizerSite AddFinalizerCall req d
                       (AddFinalizer d FinalizerName) c)))"

text \<open>What one pass adds to the journal.\<close>

definition newEffects :: "Env \<Rightarrow> Cluster \<Rightarrow> key \<Rightarrow> effect list" where
  "newEffects env c req = drop (length (journal c)) (journal (snd (Reconcile env c req)))"

section \<open>Splitting and joining\<close>


lemma Split_not_Nil: "Split s sep \<noteq> []"
  by (induction s) (auto split: list.splits)

lemma Split_Cons_no_sep:
  "sep \<notin> set p \<Longrightarrow> Split (p @ sep # s) sep = p # Split s sep"
  by (induction p) auto

lemma Split_no_sep: "sep \<notin> set p \<Longrightarrow> Split p sep = [p]"
  by (induction p) auto

lemma Split_Join:
  "ps \<noteq> [] \<Longrightarrow> \<forall>p\<in>set ps. sep \<notin> set p \<Longrightarrow> Split (Join ps [sep]) sep = ps"
proof (induction ps "[sep]" rule: Join.induct)
  case 1
  then show ?case by simp
next
  case (2 e)
  then show ?case by (simp add: Split_no_sep)
next
  case (3 e v va)
  then show ?case by (simp add: Split_Cons_no_sep)
qed

lemma Join_Split: "Join (Split s sep) [sep] = s"
proof (induction s)
  case Nil
  then show ?case by simp
next
  case (Cons c s)
  show ?case
  proof (cases "Split s sep")
    case Nil
    then show ?thesis using Split_not_Nil by blast
  next
    case (Cons p ps)
    with Cons.IH show ?thesis by (cases ps) auto
  qed
qed

lemma Split_pieces: "p \<in> set (Split s sep) \<Longrightarrow> sep \<notin> set p"
  by (induction s arbitrary: p) (auto split: list.splits if_splits)

lemma dc_Join: "ps \<noteq> [] \<Longrightarrow> ''dc='' @ Join ps '',dc='' = Join (map ((@) ''dc='') ps) '',''"
  by (induction ps "'',dc=''" rule: Join.induct) auto



section \<open>Termination of the recursion\<close>

lemma LDAPGroup_GetDistinguishedName_unfold:
  "LDAPGroup_GetDistinguishedName reader g =
     (case ParentRef (groupSpec g) of
        Some parentRef \<Rightarrow>
          (case resolveObject reader (Namespace (groupMeta g)) parentRef of
             (parent, ok, err) \<Rightarrow>
               if \<not> ok \<and> err = None
               then Some (Inl (Error ''referenced parent not found''))
               else (case err of
                 Some e \<Rightarrow> Some (Inl e)
               | None \<Rightarrow>
                   (case asNamedLDAPObject parent of
                      None \<Rightarrow> Some (Inl (Error ''parent is not a named ldap object''))
                    | Some parentObj \<Rightarrow>
                        Option.bind (GetDistinguishedName reader parentObj)
                          (\<lambda>r. case r of
                             Inl e \<Rightarrow> Some (Inl e)
                           | Inr parentDN \<Rightarrow>
                               Some (Inr (''cn='' @ groupName (groupSpec g)
                                            @ '','' @ parentDN))))))
      | None \<Rightarrow>
          (case resolveDirectory reader (Namespace (groupMeta g))
                  (DirectoryRef (groupSpec g)) of
             (directory, ok, err) \<Rightarrow>
               if \<not> ok \<and> err = None
               then Some (Inl (Error ''referenced directory not found''))
               else (case err of
                 Some e \<Rightarrow> Some (Inl e)
               | None \<Rightarrow>
                   (case asNamedLDAPObject directory of
                      None \<Rightarrow> Some (Inl (Error ''directory is not a named ldap object''))
                    | Some directoryObj \<Rightarrow>
                        Option.bind (GetDistinguishedName reader directoryObj)
                          (\<lambda>r. case r of
                             Inl e \<Rightarrow> Some (Inl e)
                           | Inr directoryDN \<Rightarrow>
                               Some (Inr (''cn='' @ groupName (groupSpec g)
                                            @ '','' @ directoryDN)))))))"
  unfolding LDAPGroup_GetDistinguishedName_def
  by (subst GetDistinguishedName.simps) simp

lemma GetDistinguishedName_directory:
  "GetDistinguishedName reader (NamedLDAPDirectory s) = Some (LDAPDirectory_GetDistinguishedName s)"
  by (subst GetDistinguishedName.simps) simp

text \<open>The relative name that an object puts before the name of its parent.\<close>

lemma nextObject_None_returns:
  "nextObject reader obj = None \<Longrightarrow> \<exists>r. GetDistinguishedName reader obj = Some r"
  by (subst GetDistinguishedName.simps)
     (auto simp: nextObject_def split: NamedLDAPObject.splits option.splits prod.splits
        sum.splits if_splits)

lemma nextObject_Some_returns:
  "nextObject reader obj = Some p \<Longrightarrow> GetDistinguishedName reader p = Some r
    \<Longrightarrow> \<exists>r'. GetDistinguishedName reader obj = Some r'"
  by (subst GetDistinguishedName.simps)
     (auto simp: nextObject_def split: NamedLDAPObject.splits option.splits prod.splits
        sum.splits if_splits)

lemma nextObject_Some_dn:
  "nextObject reader obj = Some p \<Longrightarrow> GetDistinguishedName reader p = Some (Inr dn)
    \<Longrightarrow> \<exists>dn'. GetDistinguishedName reader obj = Some (Inr dn')"
  by (subst GetDistinguishedName.simps)
     (auto simp: nextObject_def split: NamedLDAPObject.splits option.splits prod.splits
        sum.splits if_splits)

lemma chainEnds_returns:
  "chainEnds reader obj \<Longrightarrow> \<exists>r. GetDistinguishedName reader obj = Some r"
  by (induction rule: chainEnds.induct) (auto dest: nextObject_None_returns nextObject_Some_returns)

lemma endsAtDirectory_dn:
  "endsAtDirectory reader obj \<Longrightarrow> \<exists>dn. GetDistinguishedName reader obj = Some (Inr dn)"
proof (induction rule: endsAtDirectory.induct)
  case (atDirectory s)
  then show ?case
    by (simp add: GetDistinguishedName_directory LDAPDirectory_GetDistinguishedName_def)
next
  case (viaParent obj p)
  then show ?case by (auto dest: nextObject_Some_dn)
qed

lemma returns_chainEnds:
  assumes "GetDistinguishedName reader obj = Some r"
  shows "chainEnds reader obj"
proof (rule GetDistinguishedName.raw_induct
    [where P = "\<lambda>reader obj r. chainEnds reader obj", rotated, OF assms], goal_cases)
  case (1 f reader obj r)
  show ?case
  proof (cases "nextObject reader obj")
    case None
    then show ?thesis by (rule chainLast)
  next
    case (Some p)
    with "1"(2) obtain r' where "f reader p = Some r'"
      by (auto simp: nextObject_def split: NamedLDAPObject.splits option.splits prod.splits
          sum.splits if_splits bind_splits)
    then have "chainEnds reader p" by (rule "1"(1))
    with Some show ?thesis by (rule chainStep)
  qed
qed

lemma parentChain_add:
  "parentChain reader (m + n) obj =
     (case parentChain reader m obj of None \<Rightarrow> None | Some p \<Rightarrow> parentChain reader n p)"
  by (induction m arbitrary: obj) (auto split: option.splits)

lemma parentChain_cycle_mult:
  "parentChain reader n obj = Some obj \<Longrightarrow> parentChain reader (k * n) obj = Some obj"
  by (induction k) (auto simp: parentChain_add)

lemma chainEnds_parentChain_None:
  "chainEnds reader obj \<Longrightarrow> \<exists>k. parentChain reader k obj = None"
proof (induction rule: chainEnds.induct)
  case (chainLast obj)
  then have "parentChain reader (Suc 0) obj = None" by simp
  then show ?case by blast
next
  case (chainStep obj p)
  then obtain k where "parentChain reader k p = None" by blast
  with chainStep.hyps have "parentChain reader (Suc k) obj = None" by simp
  then show ?case by blast
qed

lemma parentChain_None_chainEnds:
  "parentChain reader k obj = None \<Longrightarrow> chainEnds reader obj"
proof (induction k arbitrary: obj)
  case 0
  then show ?case by simp
next
  case (Suc k)
  show ?case
  proof (cases "nextObject reader obj")
    case None
    then show ?thesis by (rule chainLast)
  next
    case (Some p)
    with Suc.prems have "parentChain reader k p = None" by simp
    then have "chainEnds reader p" by (rule Suc.IH)
    with Some show ?thesis by (rule chainStep)
  qed
qed

lemma cycle_not_chainEnds:
  assumes "0 < n" and "parentChain reader n obj = Some obj"
  shows "\<not> chainEnds reader obj"
proof
  assume "chainEnds reader obj"
  then obtain k where k: "parentChain reader k obj = None"
    using chainEnds_parentChain_None by blast
  have "k \<le> k * n" using assms(1) by simp
  then obtain j where j: "k * n = k + j" using le_Suc_ex by blast
  have "parentChain reader (k * n) obj = Some obj"
    using assms(2) by (rule parentChain_cycle_mult)
  moreover have "parentChain reader (k + j) obj = None"
    using k by (simp add: parentChain_add)
  ultimately show False using j by simp
qed

lemma chainEnds_along:
  "parentChain reader m obj = Some p \<Longrightarrow> chainEnds reader obj \<Longrightarrow> chainEnds reader p"
proof (induction m arbitrary: obj)
  case 0
  then show ?case by simp
next
  case (Suc m)
  from Suc.prems(1) obtain q where q: "nextObject reader obj = Some q"
    "parentChain reader m q = Some p"
    by (auto split: option.splits)
  from Suc.prems(2) q(1) have "chainEnds reader q"
    by (cases rule: chainEnds.cases) auto
  with q(2) show ?case by (rule Suc.IH)
qed

lemma into_cycle_diverges:
  assumes "0 < n" and "parentChain reader m obj = Some p" and "parentChain reader n p = Some p"
  shows "GetDistinguishedName reader obj = None"
proof (cases "GetDistinguishedName reader obj")
  case None then show ?thesis .
next
  case (Some r)
  then have "chainEnds reader obj" by (rule returns_chainEnds)
  with assms(2) have "chainEnds reader p" by (rule chainEnds_along)
  with cycle_not_chainEnds [OF assms(1,3)] show ?thesis by blast
qed

lemma returns_iff_finite:
  "(\<exists>r. GetDistinguishedName reader obj = Some r) = (\<exists>k. parentChain reader k obj = None)"
  using returns_chainEnds chainEnds_returns chainEnds_parentChain_None parentChain_None_chainEnds
  by blast

section \<open>Distinguished names: the claims\<close>

text \<open>
  C2. The distinguished name of an \<^verbatim>\<open>LDAPDirectory\<close> is \<^verbatim>\<open>dc=\<close> followed by the parts of
  the domain between the dots, joined with \<^verbatim>\<open>,dc=\<close>. The parts are what splitting at the
  dots means: they contain no dot and give the domain back when joined with dots; and
  whatever list of dot-free parts the domain is made of, the name is built from exactly
  that list. The domain \<^verbatim>\<open>a.b.c\<close> gives \<^verbatim>\<open>dc=a,dc=b,dc=c\<close>, and no domain gives an error.
\<close>

theorem LDAPDirectory_GetDistinguishedName_domain:
  "LDAPDirectory_GetDistinguishedName s
     = Inr (''dc='' @ Join (Split (Domain (dirSpec s)) (CHR ''.'')) '',dc='')
   \<and> Join (Split (Domain (dirSpec s)) (CHR ''.'')) ''.'' = Domain (dirSpec s)
   \<and> (\<forall>p\<in>set (Split (Domain (dirSpec s)) (CHR ''.'')). CHR ''.'' \<notin> set p)
   \<and> (\<forall>parts. parts \<noteq> [] \<and> (\<forall>p\<in>set parts. CHR ''.'' \<notin> set p)
         \<and> Domain (dirSpec s) = Join parts ''.''
       \<longrightarrow> LDAPDirectory_GetDistinguishedName s = Inr (''dc='' @ Join parts '',dc=''))
   \<and> (Domain (dirSpec s) = ''a.b.c''
       \<longrightarrow> LDAPDirectory_GetDistinguishedName s = Inr ''dc=a,dc=b,dc=c'')
   \<and> (\<forall>e. LDAPDirectory_GetDistinguishedName s \<noteq> Inl e)"
proof (intro conjI allI impI ballI)
  show "LDAPDirectory_GetDistinguishedName s
     = Inr (''dc='' @ Join (Split (Domain (dirSpec s)) (CHR ''.'')) '',dc='')"
    by (simp add: LDAPDirectory_GetDistinguishedName_def)
  show "Join (Split (Domain (dirSpec s)) (CHR ''.'')) ''.'' = Domain (dirSpec s)"
    by (rule Join_Split)
next
  fix p
  assume "p \<in> set (Split (Domain (dirSpec s)) (CHR ''.''))"
  then show "CHR ''.'' \<notin> set p"
    by (rule Split_pieces)
next
  fix parts
  assume "parts \<noteq> [] \<and> (\<forall>p\<in>set parts. CHR ''.'' \<notin> set p)
         \<and> Domain (dirSpec s) = Join parts ''.''"
  then have "Split (Domain (dirSpec s)) (CHR ''.'') = parts"
    using Split_Join [of parts "CHR ''.''"] by simp
  then show "LDAPDirectory_GetDistinguishedName s = Inr (''dc='' @ Join parts '',dc='')"
    by (simp add: LDAPDirectory_GetDistinguishedName_def)
next
  assume "Domain (dirSpec s) = ''a.b.c''"
  then show "LDAPDirectory_GetDistinguishedName s = Inr ''dc=a,dc=b,dc=c''"
    by (simp add: LDAPDirectory_GetDistinguishedName_def)
next
  fix e
  show "LDAPDirectory_GetDistinguishedName s \<noteq> Inl e"
    by (simp add: LDAPDirectory_GetDistinguishedName_def)
qed

theorem LDAPDirectory_GetDistinguishedName_domain_witness:
  "LDAPDirectory_GetDistinguishedName exampleDirectory = Inr ''dc=example,dc=com''
   \<and> LDAPDirectory_GetDistinguishedName
        (exampleDirectory\<lparr>dirSpec := (dirSpec exampleDirectory)\<lparr>Domain := ''a.b.c''\<rparr>\<rparr>)
       = Inr ''dc=a,dc=b,dc=c''"
proof -
  have parts: "[''example'', ''com''] \<noteq> [] \<and> (\<forall>p\<in>set [''example'', ''com'']. CHR ''.'' \<notin> set p)
      \<and> Domain (dirSpec exampleDirectory) = Join [''example'', ''com''] ''.''"
    by (simp add: exampleDirectory_def)
  have "LDAPDirectory_GetDistinguishedName exampleDirectory
          = Inr (''dc='' @ Join [''example'', ''com''] '',dc='')"
    using LDAPDirectory_GetDistinguishedName_domain [of exampleDirectory] parts by blast
  moreover have "LDAPDirectory_GetDistinguishedName
        (exampleDirectory\<lparr>dirSpec := (dirSpec exampleDirectory)\<lparr>Domain := ''a.b.c''\<rparr>\<rparr>)
       = Inr ''dc=a,dc=b,dc=c''"
    using LDAPDirectory_GetDistinguishedName_domain
      [of "exampleDirectory\<lparr>dirSpec := (dirSpec exampleDirectory)\<lparr>Domain := ''a.b.c''\<rparr>\<rparr>"]
    by simp
  ultimately show ?thesis by simp
qed

text \<open>
  C1. The distinguished name of an \<^verbatim>\<open>LDAPGroup\<close> named \<open>N\<close> is \<^verbatim>\<open>cn=\<close>\<open>N\<close>, a comma and the
  name of the parent: of the object the parent reference resolves to when that reference is
  set (a directory, a group, an organizational unit or a user), of the object the directory
  reference resolves to otherwise. Every name the function returns has this form.
\<close>

theorem LDAPGroup_GetDistinguishedName_rdn_parent:
  "(\<forall>parentRef parent parentObj parentDN.
      ParentRef (groupSpec g) = Some parentRef
      \<and> resolveObject rd (Namespace (groupMeta g)) parentRef = (parent, True, None)
      \<and> asNamedLDAPObject parent = Some parentObj
      \<and> GetDistinguishedName rd parentObj = Some (Inr parentDN)
    \<longrightarrow> LDAPGroup_GetDistinguishedName rd g
          = Some (Inr (''cn='' @ groupName (groupSpec g) @ '','' @ parentDN)))
   \<and> (\<forall>directory directoryObj directoryDN.
      ParentRef (groupSpec g) = None
      \<and> resolveDirectory rd (Namespace (groupMeta g)) (DirectoryRef (groupSpec g))
          = (directory, True, None)
      \<and> asNamedLDAPObject directory = Some directoryObj
      \<and> GetDistinguishedName rd directoryObj = Some (Inr directoryDN)
    \<longrightarrow> LDAPGroup_GetDistinguishedName rd g
          = Some (Inr (''cn='' @ groupName (groupSpec g) @ '','' @ directoryDN)))
   \<and> (\<forall>dn. LDAPGroup_GetDistinguishedName rd g = Some (Inr dn)
    \<longrightarrow> (\<exists>parentDN. dn = ''cn='' @ groupName (groupSpec g) @ '','' @ parentDN))"
proof (intro conjI allI impI)
  fix parentRef parent parentObj parentDN
  assume "ParentRef (groupSpec g) = Some parentRef
      \<and> resolveObject rd (Namespace (groupMeta g)) parentRef = (parent, True, None)
      \<and> asNamedLDAPObject parent = Some parentObj
      \<and> GetDistinguishedName rd parentObj = Some (Inr parentDN)"
  then show "LDAPGroup_GetDistinguishedName rd g
          = Some (Inr (''cn='' @ groupName (groupSpec g) @ '','' @ parentDN))"
    by (simp add: LDAPGroup_GetDistinguishedName_unfold)
next
  fix directory directoryObj directoryDN
  assume "ParentRef (groupSpec g) = None
      \<and> resolveDirectory rd (Namespace (groupMeta g)) (DirectoryRef (groupSpec g))
          = (directory, True, None)
      \<and> asNamedLDAPObject directory = Some directoryObj
      \<and> GetDistinguishedName rd directoryObj = Some (Inr directoryDN)"
  then show "LDAPGroup_GetDistinguishedName rd g
          = Some (Inr (''cn='' @ groupName (groupSpec g) @ '','' @ directoryDN))"
    by (simp add: LDAPGroup_GetDistinguishedName_unfold)
next
  fix dn
  assume "LDAPGroup_GetDistinguishedName rd g = Some (Inr dn)"
  then show "\<exists>parentDN. dn = ''cn='' @ groupName (groupSpec g) @ '','' @ parentDN"
    by (auto simp: LDAPGroup_GetDistinguishedName_unfold
        split: option.splits prod.splits sum.splits if_splits bind_splits)
qed

lemma example_directory_dn:
  "GetDistinguishedName exampleReader (NamedLDAPDirectory exampleDirectory)
     = Some (Inr ''dc=example,dc=com'')"
  by (simp add: GetDistinguishedName_directory LDAPDirectory_GetDistinguishedName_def
      exampleDirectory_def)

lemma example_users_dn:
  "GetDistinguishedName exampleReader (NamedLDAPOrganizationalUnit usersUnit)
     = Some (Inr ''ou=users,dc=example,dc=com'')"
proof -
  have base: "baseObject exampleReader (Namespace (ouMeta usersUnit)) (ouSpec usersUnit)
      = Inr (NamedLDAPDirectory exampleDirectory)"
    by (simp add: baseObject_def usersUnit_def exampleReader_def)
  have n: "ouName (ouSpec usersUnit) = ''users''"
    by (simp add: usersUnit_def)
  show ?thesis
    by (subst GetDistinguishedName.simps) (simp add: base n example_directory_dn)
qed

lemma example_admins_dn:
  "GetDistinguishedName exampleReader (NamedLDAPGroup adminsGroup)
     = Some (Inr ''cn=admins,dc=example,dc=com'')"
proof -
  have r: "ParentRef (groupSpec adminsGroup) = None"
    "resolveDirectory exampleReader (Namespace (groupMeta adminsGroup))
        (DirectoryRef (groupSpec adminsGroup))
      = (Some (ObjLDAPDirectory exampleDirectory), True, None)"
    "groupName (groupSpec adminsGroup) = ''admins''"
    by (simp_all add: adminsGroup_def exampleGroup_def exampleReader_def)
  show ?thesis
    using LDAPGroup_GetDistinguishedName_unfold [of exampleReader adminsGroup]
    by (simp add: r example_directory_dn LDAPGroup_GetDistinguishedName_def)
qed

theorem LDAPGroup_GetDistinguishedName_rdn_parent_witness:
  "LDAPGroup_GetDistinguishedName exampleReader adminsGroup
     = Some (Inr ''cn=admins,dc=example,dc=com'')
   \<and> LDAPGroup_GetDistinguishedName exampleReader opsGroup
     = Some (Inr ''cn=ops,cn=admins,dc=example,dc=com'')
   \<and> LDAPGroup_GetDistinguishedName exampleReader devsGroup
     = Some (Inr ''cn=devs,ou=users,dc=example,dc=com'')"
proof -
  have "ParentRef (groupSpec adminsGroup) = None
      \<and> resolveDirectory exampleReader (Namespace (groupMeta adminsGroup))
            (DirectoryRef (groupSpec adminsGroup))
          = (Some (ObjLDAPDirectory exampleDirectory), True, None)
      \<and> asNamedLDAPObject (Some (ObjLDAPDirectory exampleDirectory))
          = Some (NamedLDAPDirectory exampleDirectory)"
    by (simp add: adminsGroup_def exampleGroup_def exampleReader_def)
  with example_directory_dn
  have admins: "LDAPGroup_GetDistinguishedName exampleReader adminsGroup
     = Some (Inr (''cn='' @ groupName (groupSpec adminsGroup) @ '','' @ ''dc=example,dc=com''))"
    using LDAPGroup_GetDistinguishedName_rdn_parent [of adminsGroup exampleReader] by blast
  then have admins': "GetDistinguishedName exampleReader (NamedLDAPGroup adminsGroup)
     = Some (Inr ''cn=admins,dc=example,dc=com'')"
    by (simp add: LDAPGroup_GetDistinguishedName_def adminsGroup_def exampleGroup_def)
  have "ParentRef (groupSpec opsGroup)
          = Some \<lparr>APIVersion = ''ldap.gpu-ninja.com/v1alpha1'', Kind = ''LDAPGroup'',
                  refName = ''admins''\<rparr>
      \<and> resolveObject exampleReader (Namespace (groupMeta opsGroup))
            \<lparr>APIVersion = ''ldap.gpu-ninja.com/v1alpha1'', Kind = ''LDAPGroup'',
                  refName = ''admins''\<rparr>
          = (Some (ObjLDAPGroup adminsGroup), True, None)
      \<and> asNamedLDAPObject (Some (ObjLDAPGroup adminsGroup)) = Some (NamedLDAPGroup adminsGroup)"
    by (simp add: opsGroup_def exampleGroup_def exampleReader_def)
  with admins' have ops: "LDAPGroup_GetDistinguishedName exampleReader opsGroup
     = Some (Inr (''cn='' @ groupName (groupSpec opsGroup) @ '','' @ ''cn=admins,dc=example,dc=com''))"
    using LDAPGroup_GetDistinguishedName_rdn_parent [of opsGroup exampleReader] by blast
  have "ParentRef (groupSpec devsGroup)
          = Some (exampleParentRef ''LDAPOrganizationalUnit'' ''users'')
      \<and> resolveObject exampleReader (Namespace (groupMeta devsGroup))
            (exampleParentRef ''LDAPOrganizationalUnit'' ''users'')
          = (Some (ObjLDAPOrganizationalUnit usersUnit), True, None)
      \<and> asNamedLDAPObject (Some (ObjLDAPOrganizationalUnit usersUnit))
          = Some (NamedLDAPOrganizationalUnit usersUnit)"
    by (simp add: devsGroup_def exampleGroup_def exampleReader_def exampleParentRef_def)
  with example_users_dn have devs: "LDAPGroup_GetDistinguishedName exampleReader devsGroup
     = Some (Inr (''cn='' @ groupName (groupSpec devsGroup) @ '','' @ ''ou=users,dc=example,dc=com''))"
    using LDAPGroup_GetDistinguishedName_rdn_parent [of devsGroup exampleReader] by blast
  from admins ops devs show ?thesis
    by (simp add: adminsGroup_def opsGroup_def devsGroup_def exampleGroup_def)
qed

text \<open>
  C9. The recursion of \<^verbatim>\<open>GetDistinguishedName\<close> has no guard. For every object it returns
  exactly when the chain of objects it asks is finite; it returns a name when that chain
  ends at a directory; and it does not return when the chain leads into a cycle, whether the
  object is on the cycle itself or only reaches it through its parents.
\<close>

theorem GetDistinguishedName_termination:
  "(endsAtDirectory rd obj \<longrightarrow> (\<exists>dn. GetDistinguishedName rd obj = Some (Inr dn)))
   \<and> ((\<exists>r. GetDistinguishedName rd obj = Some r) = (\<exists>k. parentChain rd k obj = None))
   \<and> ((\<exists>m n p. 0 < n \<and> parentChain rd m obj = Some p \<and> parentChain rd n p = Some p)
        \<longrightarrow> GetDistinguishedName rd obj = None)"
proof (intro conjI impI)
  assume "endsAtDirectory rd obj"
  then show "\<exists>dn. GetDistinguishedName rd obj = Some (Inr dn)"
    by (rule endsAtDirectory_dn)
next
  show "(\<exists>r. GetDistinguishedName rd obj = Some r) = (\<exists>k. parentChain rd k obj = None)"
    by (rule returns_iff_finite)
next
  assume "\<exists>m n p. 0 < n \<and> parentChain rd m obj = Some p \<and> parentChain rd n p = Some p"
  then obtain m n p where "0 < n" "parentChain rd m obj = Some p" "parentChain rd n p = Some p"
    by blast
  then show "GetDistinguishedName rd obj = None"
    by (rule into_cycle_diverges)
qed

lemma example_next:
  "nextObject exampleReader (NamedLDAPUser aliceUser) = Some (NamedLDAPOrganizationalUnit usersUnit)"
  "nextObject exampleReader (NamedLDAPOrganizationalUnit usersUnit)
     = Some (NamedLDAPDirectory exampleDirectory)"
  "nextObject exampleReader (NamedLDAPDirectory exampleDirectory) = None"
  "nextObject exampleReader (NamedLDAPGroup tailGroup) = Some (NamedLDAPGroup loopA)"
  "nextObject exampleReader (NamedLDAPGroup loopA) = Some (NamedLDAPGroup loopB)"
  "nextObject exampleReader (NamedLDAPGroup loopB) = Some (NamedLDAPGroup loopA)"
  by (simp_all add: nextObject_def baseObject_def aliceUser_def usersUnit_def tailGroup_def
      loopA_def loopB_def exampleGroup_def exampleReader_def exampleMeta_def exampleParentRef_def)

theorem GetDistinguishedName_termination_witness:
  "endsAtDirectory exampleReader (NamedLDAPUser aliceUser)
   \<and> parentChain exampleReader (Suc (Suc (Suc 0))) (NamedLDAPUser aliceUser) = None
   \<and> (\<exists>dn. GetDistinguishedName exampleReader (NamedLDAPUser aliceUser) = Some (Inr dn))
   \<and> parentChain exampleReader (Suc 0) (NamedLDAPGroup tailGroup) = Some (NamedLDAPGroup loopA)
   \<and> parentChain exampleReader (Suc (Suc 0)) (NamedLDAPGroup loopA) = Some (NamedLDAPGroup loopA)
   \<and> GetDistinguishedName exampleReader (NamedLDAPGroup tailGroup) = None
   \<and> GetDistinguishedName exampleReader (NamedLDAPGroup loopA) = None"
proof -
  have ends: "endsAtDirectory exampleReader (NamedLDAPUser aliceUser)"
    by (intro viaParent [OF example_next(1)] viaParent [OF example_next(2)] atDirectory)
  have fin: "parentChain exampleReader (Suc (Suc (Suc 0))) (NamedLDAPUser aliceUser) = None"
    by (simp add: example_next)
  have tail: "parentChain exampleReader (Suc 0) (NamedLDAPGroup tailGroup)
      = Some (NamedLDAPGroup loopA)"
    by (simp add: example_next)
  have loop: "parentChain exampleReader (Suc (Suc 0)) (NamedLDAPGroup loopA)
      = Some (NamedLDAPGroup loopA)"
    by (simp add: example_next)
  have zero: "parentChain exampleReader 0 (NamedLDAPGroup loopA) = Some (NamedLDAPGroup loopA)"
    by simp
  have dn: "\<exists>dn. GetDistinguishedName exampleReader (NamedLDAPUser aliceUser) = Some (Inr dn)"
    using GetDistinguishedName_termination [of exampleReader "NamedLDAPUser aliceUser"] ends
    by blast
  have "\<exists>m n p. 0 < n \<and> parentChain exampleReader m (NamedLDAPGroup tailGroup) = Some p
      \<and> parentChain exampleReader n p = Some p"
    using tail loop by (intro exI [of _ "Suc 0"] exI [of _ "Suc (Suc 0)"]
        exI [of _ "NamedLDAPGroup loopA"]) simp
  then have t: "GetDistinguishedName exampleReader (NamedLDAPGroup tailGroup) = None"
    using GetDistinguishedName_termination [of exampleReader "NamedLDAPGroup tailGroup"]
    by blast
  have "\<exists>m n p. 0 < n \<and> parentChain exampleReader m (NamedLDAPGroup loopA) = Some p
      \<and> parentChain exampleReader n p = Some p"
    using zero loop by (intro exI [of _ 0] exI [of _ "Suc (Suc 0)"]
        exI [of _ "NamedLDAPGroup loopA"]) simp
  then have l: "GetDistinguishedName exampleReader (NamedLDAPGroup loopA) = None"
    using GetDistinguishedName_termination [of exampleReader "NamedLDAPGroup loopA"]
    by blast
  from ends fin dn tail loop t l show ?thesis by blast
qed

text \<open>
  C10, as stated, fails: the group \<^verbatim>\<open>drift\<close> has a directory reference whose target does
  not exist and a parent reference that resolves, and \<^verbatim>\<open>GetDistinguishedName\<close> returns its
  name, since the directory reference is resolved only when no parent reference is set.
\<close>

theorem LDAPGroup_missing_directory_counterexample:
  "resolveDirectory exampleReader (Namespace (groupMeta driftGroup))
       (DirectoryRef (groupSpec driftGroup)) = (None, False, None)
   \<and> LDAPGroup_GetDistinguishedName exampleReader driftGroup
       = Some (Inr ''cn=drift,cn=admins,dc=example,dc=com'')
   \<and> LDAPGroup_ResolveReferences exampleReader driftGroup = (False, None)"
proof -
  have r: "ParentRef (groupSpec driftGroup)
        = Some \<lparr>APIVersion = ''ldap.gpu-ninja.com/v1alpha1'', Kind = ''LDAPGroup'',
                refName = ''admins''\<rparr>"
    "resolveObject exampleReader (Namespace (groupMeta driftGroup))
        \<lparr>APIVersion = ''ldap.gpu-ninja.com/v1alpha1'', Kind = ''LDAPGroup'',
          refName = ''admins''\<rparr>
      = (Some (ObjLDAPGroup adminsGroup), True, None)"
    "groupName (groupSpec driftGroup) = ''drift''"
    by (simp_all add: driftGroup_def exampleGroup_def exampleReader_def)
  have "LDAPGroup_GetDistinguishedName exampleReader driftGroup
       = Some (Inr ''cn=drift,cn=admins,dc=example,dc=com'')"
    by (subst LDAPGroup_GetDistinguishedName_unfold) (simp add: r example_admins_dn)
  moreover have "resolveDirectory exampleReader (Namespace (groupMeta driftGroup))
       (DirectoryRef (groupSpec driftGroup)) = (None, False, None)"
    by (simp add: driftGroup_def exampleGroup_def exampleReader_def)
  moreover have "LDAPGroup_ResolveReferences exampleReader driftGroup = (False, None)"
    by (simp add: LDAPGroup_ResolveReferences_def driftGroup_def exampleGroup_def
        exampleReader_def)
  ultimately show ?thesis by simp
qed

text \<open>
  C10, amended. \<^verbatim>\<open>GetDistinguishedName\<close> has no way to say ``not yet'': when the reference
  it resolves has no target, it returns an error: \<^verbatim>\<open>referenced parent not found\<close> for a
  parent reference that is set, \<^verbatim>\<open>referenced directory not found\<close> for the directory
  reference of a group with no parent reference. \<^verbatim>\<open>ResolveReferences\<close> reports a missing
  directory, and a missing parent of a group whose directory resolves, as
  \<^verbatim>\<open>(false, nil)\<close>, and passes an error of the lookup on as an error.
\<close>

theorem LDAPGroup_unresolved_reference:
  "(\<forall>parentRef parent.
      ParentRef (groupSpec g) = Some parentRef
      \<and> resolveObject rd (Namespace (groupMeta g)) parentRef = (parent, False, None)
    \<longrightarrow> LDAPGroup_GetDistinguishedName rd g = Some (Inl (Error ''referenced parent not found'')))
   \<and> (\<forall>directory.
      ParentRef (groupSpec g) = None
      \<and> resolveDirectory rd (Namespace (groupMeta g)) (DirectoryRef (groupSpec g))
          = (directory, False, None)
    \<longrightarrow> LDAPGroup_GetDistinguishedName rd g
          = Some (Inl (Error ''referenced directory not found'')))
   \<and> (\<forall>directory.
      resolveDirectory rd (Namespace (groupMeta g)) (DirectoryRef (groupSpec g))
          = (directory, False, None)
    \<longrightarrow> LDAPGroup_ResolveReferences rd g = (False, None))
   \<and> (\<forall>directory parentRef parent.
      resolveDirectory rd (Namespace (groupMeta g)) (DirectoryRef (groupSpec g))
          = (directory, True, None)
      \<and> ParentRef (groupSpec g) = Some parentRef
      \<and> resolveObject rd (Namespace (groupMeta g)) parentRef = (parent, False, None)
    \<longrightarrow> LDAPGroup_ResolveReferences rd g = (False, None))
   \<and> (\<forall>directory ok e.
      resolveDirectory rd (Namespace (groupMeta g)) (DirectoryRef (groupSpec g))
          = (directory, ok, Some e)
    \<longrightarrow> LDAPGroup_ResolveReferences rd g = (ok, Some e))"
proof (intro conjI allI impI)
  fix parentRef parent
  assume "ParentRef (groupSpec g) = Some parentRef
      \<and> resolveObject rd (Namespace (groupMeta g)) parentRef = (parent, False, None)"
  then show "LDAPGroup_GetDistinguishedName rd g
      = Some (Inl (Error ''referenced parent not found''))"
    by (simp add: LDAPGroup_GetDistinguishedName_unfold)
next
  fix directory
  assume "ParentRef (groupSpec g) = None
      \<and> resolveDirectory rd (Namespace (groupMeta g)) (DirectoryRef (groupSpec g))
          = (directory, False, None)"
  then show "LDAPGroup_GetDistinguishedName rd g
      = Some (Inl (Error ''referenced directory not found''))"
    by (simp add: LDAPGroup_GetDistinguishedName_unfold)
qed (simp_all add: LDAPGroup_ResolveReferences_def)

theorem LDAPGroup_unresolved_reference_witness:
  "LDAPGroup_GetDistinguishedName exampleReader orphanGroup
     = Some (Inl (Error ''referenced parent not found''))
   \<and> LDAPGroup_ResolveReferences exampleReader orphanGroup = (False, None)
   \<and> LDAPGroup_GetDistinguishedName exampleReader strayGroup
     = Some (Inl (Error ''referenced directory not found''))
   \<and> LDAPGroup_ResolveReferences exampleReader strayGroup = (False, None)
   \<and> LDAPGroup_ResolveReferences
        (exampleReader\<lparr>resolveDirectory := \<lambda>ns ref. (None, False, Some (Error ''timeout''))\<rparr>)
        adminsGroup = (False, Some (Error ''timeout''))"
proof -
  let ?ref = "\<lparr>APIVersion = ''ldap.gpu-ninja.com/v1alpha1'', Kind = ''LDAPGroup'',
               refName = ''missing''\<rparr>"
  have orphan: "ParentRef (groupSpec orphanGroup) = Some ?ref
      \<and> resolveObject exampleReader (Namespace (groupMeta orphanGroup)) ?ref = (None, False, None)"
    by (simp add: orphanGroup_def exampleGroup_def exampleReader_def)
  have orphan_dir: "resolveDirectory exampleReader (Namespace (groupMeta orphanGroup))
        (DirectoryRef (groupSpec orphanGroup))
      = (Some (ObjLDAPDirectory exampleDirectory), True, None)"
    by (simp add: orphanGroup_def exampleGroup_def exampleReader_def)
  have stray: "ParentRef (groupSpec strayGroup) = None
      \<and> resolveDirectory exampleReader (Namespace (groupMeta strayGroup))
          (DirectoryRef (groupSpec strayGroup)) = (None, False, None)"
    by (simp add: strayGroup_def exampleGroup_def exampleReader_def)
  have failing: "resolveDirectory
        (exampleReader\<lparr>resolveDirectory := \<lambda>ns ref. (None, False, Some (Error ''timeout''))\<rparr>)
        (Namespace (groupMeta adminsGroup)) (DirectoryRef (groupSpec adminsGroup))
      = (None, False, Some (Error ''timeout''))"
    by simp
  have "LDAPGroup_GetDistinguishedName exampleReader orphanGroup
     = Some (Inl (Error ''referenced parent not found''))"
    using LDAPGroup_unresolved_reference [of orphanGroup exampleReader] orphan by blast
  moreover have "LDAPGroup_ResolveReferences exampleReader orphanGroup = (False, None)"
    using LDAPGroup_unresolved_reference [of orphanGroup exampleReader] orphan orphan_dir by blast
  moreover have "LDAPGroup_GetDistinguishedName exampleReader strayGroup
     = Some (Inl (Error ''referenced directory not found''))"
    using LDAPGroup_unresolved_reference [of strayGroup exampleReader] stray by blast
  moreover have "LDAPGroup_ResolveReferences exampleReader strayGroup = (False, None)"
    using LDAPGroup_unresolved_reference [of strayGroup exampleReader] stray by blast
  moreover have "LDAPGroup_ResolveReferences
        (exampleReader\<lparr>resolveDirectory := \<lambda>ns ref. (None, False, Some (Error ''timeout''))\<rparr>)
        adminsGroup = (False, Some (Error ''timeout''))"
    using LDAPGroup_unresolved_reference [of adminsGroup
        "exampleReader\<lparr>resolveDirectory := \<lambda>ns ref. (None, False, Some (Error ''timeout''))\<rparr>"]
      failing by blast
  ultimately show ?thesis by simp
qed

section \<open>The controller: steps that keep the finalizers\<close>

lemma frame_refl: "frame strict k c c"
  by (simp add: frame_def)

lemma frame_weaken: "frame True k c c' \<Longrightarrow> frame strict k c c'"
  by (auto simp: frame_def)

lemma frame_trans:
  assumes a: "frame strict k c c1" and b: "frame strict k c1 c2"
  shows "frame strict k c c2"
proof -
  from a obtain js where js: "journal c1 = journal c @ js"
    "\<forall>w fins. Wrote w fins \<in> set js \<longrightarrow>
       fins = storedFinalizers c k \<and> w \<noteq> AddFinalizerCall \<and> w \<noteq> RemoveFinalizerCall
       \<and> (strict \<longrightarrow> w \<noteq> CreateSecretCall)"
    unfolding frame_def by blast
  from b obtain js' where js': "journal c2 = journal c1 @ js'"
    "\<forall>w fins. Wrote w fins \<in> set js' \<longrightarrow>
       fins = storedFinalizers c1 k \<and> w \<noteq> AddFinalizerCall \<and> w \<noteq> RemoveFinalizerCall
       \<and> (strict \<longrightarrow> w \<noteq> CreateSecretCall)"
    unfolding frame_def by blast
  from a b have eq: "storedFinalizers c1 k = storedFinalizers c k"
    "storedFinalizers c2 k = storedFinalizers c k"
    "\<forall>k' s. secrets c k' = Some s \<longrightarrow> secrets c2 k' = Some s"
    "strict \<longrightarrow> secrets c2 = secrets c"
    unfolding frame_def by auto
  have "journal c2 = journal c @ (js @ js')" using js(1) js'(1) by simp
  moreover have "\<forall>w fins. Wrote w fins \<in> set (js @ js') \<longrightarrow>
       fins = storedFinalizers c k \<and> w \<noteq> AddFinalizerCall \<and> w \<noteq> RemoveFinalizerCall
       \<and> (strict \<longrightarrow> w \<noteq> CreateSecretCall)"
    using js(2) js'(2) eq(1) by auto
  ultimately have "\<exists>js. journal c2 = journal c @ js
            \<and> (\<forall>w fins. Wrote w fins \<in> set js \<longrightarrow>
                  fins = storedFinalizers c k \<and> w \<noteq> AddFinalizerCall \<and> w \<noteq> RemoveFinalizerCall
                  \<and> (strict \<longrightarrow> w \<noteq> CreateSecretCall))"
    by blast
  with eq show ?thesis unfolding frame_def by blast
qed

lemma frame_recordEvent: "frame strict k c (recordEvent t r m c)"
  by (simp add: frame_def recordEvent_def storedFinalizers_def)

lemma frame_logWrite:
  "w \<noteq> AddFinalizerCall \<Longrightarrow> w \<noteq> RemoveFinalizerCall \<Longrightarrow> w \<noteq> CreateSecretCall
     \<Longrightarrow> frame strict k c (logWrite k w c)"
  by (simp add: frame_def logWrite_def storedFinalizers_def)

lemma frame_UpdateStatus:
  "UpdateStatus env k d ph cond c = (r, d1, c1) \<Longrightarrow> frame strict k c c1"
  by (auto simp: UpdateStatus_def Let_def frame_def logWrite_def storedFinalizers_def
      split: option.splits)

lemma frame_markPending:
  "markPending env k d c = (r, d1, c1) \<Longrightarrow> frame strict k c c1"
  by (auto simp: markPending_def split: prod.splits option.splits dest: frame_UpdateStatus)

lemma frame_markReady:
  "markReady env k d c = (r, d1, c1) \<Longrightarrow> frame strict k c c1"
  by (auto simp: markReady_def split: prod.splits option.splits dest: frame_UpdateStatus)

lemma frame_markFailed:
  "markFailed env k d e c = (d1, c1) \<Longrightarrow> frame strict k c c1"
  by (auto simp: markFailed_def split: prod.splits option.splits dest: frame_UpdateStatus)

lemma frame_failWith:
  "frame strict k c (snd (failWith env k d p q e c))"
  by (auto simp: failWith_def Let_def split: prod.splits
      intro: frame_trans [OF frame_recordEvent]
      dest: frame_markFailed)

lemma frame_applyStatefulSet: "frame strict k c (applyStatefulSet n c)"
  by (simp add: frame_def applyStatefulSet_def storedFinalizers_def)

lemma frame_services: "frame strict k c (c\<lparr>services := s\<rparr>)"
  by (simp add: frame_def storedFinalizers_def)

lemma frame_Reconcile_resources:
  "frame strict k c (snd (Reconcile_resources env k d c))"
proof -
  let ?c1 = "logWrite k ApplyStatefulSetCall c"
  let ?c2 = "applyStatefulSet (resourceName d) ?c1"
  let ?c3 = "logWrite k ApplyServiceCall ?c2"
  let ?c4 = "?c3\<lparr>services := insert (resourceName d) (services ?c3)\<rparr>"
  have f1: "frame strict k c ?c1" by (simp add: frame_logWrite)
  have f2: "frame strict k c ?c2" using f1 frame_applyStatefulSet by (rule frame_trans)
  have f3: "frame strict k c ?c3" by (rule frame_trans [OF f2]) (simp add: frame_logWrite)
  have f4: "frame strict k c ?c4" using f3 frame_services by (rule frame_trans)
  have fail: "\<And>c' p q e. frame strict k c c' \<Longrightarrow> frame strict k c (snd (failWith env k d p q e c'))"
    using frame_failWith frame_trans by blast
  have ev: "\<And>c' t r m. frame strict k c c' \<Longrightarrow> frame strict k c (recordEvent t r m c')"
    using frame_recordEvent frame_trans by blast
  have mp: "\<And>c' r d1 c1. frame strict k c c' \<Longrightarrow> markPending env k d c' = (r, d1, c1)
      \<Longrightarrow> frame strict k c c1"
    using frame_markPending frame_trans by blast
  have mr: "\<And>c' r d1 c1. frame strict k c c' \<Longrightarrow> markReady env k d c' = (r, d1, c1)
      \<Longrightarrow> frame strict k c c1"
    using frame_markReady frame_trans by blast
  show ?thesis
    unfolding Reconcile_resources_def Let_def
    by (auto split: option.splits sum.splits prod.splits
        intro!: fail frame_refl f1 f2 f3 f4 intro: mp [OF ev [OF f4]] mr [OF ev [OF f4]])
qed

lemma frame_Reconcile_adminPassword_Inr:
  "Reconcile_adminPassword env k d c = Inr c1 \<Longrightarrow> frame False k c c1"
  by (auto simp: Reconcile_adminPassword_def Let_def frame_def logWrite_def storedFinalizers_def
      split: option.splits sum.splits)

lemma frame_Reconcile_adminPassword_Inl:
  "Reconcile_adminPassword env k d c = Inl (e, c1) \<Longrightarrow> frame False k c c1"
  by (auto simp: Reconcile_adminPassword_def Let_def frame_def logWrite_def storedFinalizers_def
      split: option.splits sum.splits)

lemma Reconcile_adminPassword_exists:
  "secrets c (adminPasswordSecretName d) = Some s \<Longrightarrow>
     Reconcile_adminPassword env k d c = Inr c \<or>
     (\<exists>e. Reconcile_adminPassword env k d c = Inl (e, c))"
  by (auto simp: Reconcile_adminPassword_def split: option.splits)

lemma frame_Reconcile_references:
  "frame False k c (snd (Reconcile_references env k d c))"
proof -
  have ev: "\<And>t r m. frame False k c (recordEvent t r m c)"
    by (rule frame_recordEvent)
  have mp: "\<And>c' r d1 c1. frame False k c c' \<Longrightarrow> markPending env k d c' = (r, d1, c1)
      \<Longrightarrow> frame False k c c1"
    using frame_markPending frame_trans by blast
  have res: "\<And>c1. frame False k c c1 \<Longrightarrow> frame False k c (snd (Reconcile_resources env k d c1))"
    using frame_Reconcile_resources frame_trans by blast
  show ?thesis
    unfolding Reconcile_references_def Let_def
    by (auto split: option.splits sum.splits prod.splits
        intro!: frame_failWith res
        intro: mp [OF ev] frame_Reconcile_adminPassword_Inr frame_Reconcile_adminPassword_Inl)
qed

lemma frame_Reconcile_references_strict:
  assumes "secrets c (adminPasswordSecretName d) = Some s"
  shows "frame True k c (snd (Reconcile_references env k d c))"
proof -
  have ev: "\<And>t r m. frame True k c (recordEvent t r m c)"
    by (rule frame_recordEvent)
  have mp: "\<And>c' r d1 c1. frame True k c c' \<Longrightarrow> markPending env k d c' = (r, d1, c1)
      \<Longrightarrow> frame True k c c1"
    using frame_markPending frame_trans by blast
  show ?thesis
    using Reconcile_adminPassword_exists [OF assms, of env k]
    unfolding Reconcile_references_def Let_def
    by (auto split: option.splits sum.splits prod.splits
        intro!: frame_failWith frame_Reconcile_resources frame_refl
        intro: mp [OF ev])
qed

lemma AddFinalizer_simps [simp]:
  "dirSpec (AddFinalizer d f) = dirSpec d"
  "dirStatus (AddFinalizer d f) = dirStatus d"
  "Name (dirMeta (AddFinalizer d f)) = Name (dirMeta d)"
  "Namespace (dirMeta (AddFinalizer d f)) = Namespace (dirMeta d)"
  "Generation (dirMeta (AddFinalizer d f)) = Generation (dirMeta d)"
  "DeletionTimestamp (dirMeta (AddFinalizer d f)) = DeletionTimestamp (dirMeta d)"
  "f \<in> set (Finalizers (dirMeta (AddFinalizer d f)))"
  by (simp_all add: AddFinalizer_def)

lemma AddFinalizer_present:
  "ContainsFinalizer d f \<Longrightarrow> AddFinalizer d f = d"
  by (simp add: AddFinalizer_def ContainsFinalizer_def)

lemma Reconcile_live:
  assumes "fault env GetDirectorySite = None" and "directories c req = Some d"
    and "ContainsFinalizer d FinalizerName \<or> fault env AddFinalizerSite = None"
  shows "Reconcile env c req =
     (if DeletionTimestamp (dirMeta d) \<noteq> None
      then Reconcile_deleting env req (AddFinalizer d FinalizerName) (liveCluster env c req d)
      else Reconcile_references env req (AddFinalizer d FinalizerName) (liveCluster env c req d))"
  using assms
  by (auto simp: Reconcile_def liveCluster_def patchFinalizers_def Let_def AddFinalizer_present)

lemma liveCluster_simps:
  assumes "directories c req = Some d"
    and "ContainsFinalizer d FinalizerName \<or> fault env AddFinalizerSite = None"
  shows "secrets (liveCluster env c req d) = secrets c"
    and "\<exists>d'. directories (liveCluster env c req d) req = Some d'
           \<and> Finalizers (dirMeta d') = Finalizers (dirMeta (AddFinalizer d FinalizerName))"
    and "journal (liveCluster env c req d) = journal c @
           (if ContainsFinalizer d FinalizerName then []
            else [Wrote AddFinalizerCall (Finalizers (dirMeta d))])"
  using assms
  by (auto simp: liveCluster_def patchFinalizers_def Let_def logWrite_def storedFinalizers_def
      AddFinalizer_present)

lemma liveCluster_storedFinalizers:
  assumes "directories c req = Some d"
    and "ContainsFinalizer d FinalizerName \<or> fault env AddFinalizerSite = None"
  shows "FinalizerName \<in> set (storedFinalizers (liveCluster env c req d) req)"
  using liveCluster_simps(2) [OF assms] by (auto simp: storedFinalizers_def)

lemma ResolveReferences_AddFinalizer [simp]:
  "LDAPDirectory_ResolveReferences rd (AddFinalizer d f) = LDAPDirectory_ResolveReferences rd d"
  by (simp add: LDAPDirectory_ResolveReferences_def)

lemma Reconcile_deleting_journal:
  "\<exists>js. journal (snd (Reconcile_deleting env k d c)) = journal c @ js
     \<and> (\<forall>w fins. Wrote w fins \<in> set js \<longrightarrow> fins = storedFinalizers c k \<and> w = RemoveFinalizerCall)
     \<and> secrets (snd (Reconcile_deleting env k d c)) = secrets c"
  by (auto simp: Reconcile_deleting_def patchFinalizers_def Let_def logWrite_def
      split: option.splits)

lemma Reconcile_tail:
  assumes "FinalizerName \<in> set (storedFinalizers c1 req)"
  shows "\<exists>js. journal (snd (if b then Reconcile_deleting env req d1 c1
                              else Reconcile_references env req d1 c1)) = journal c1 @ js
     \<and> (\<forall>w fins. Wrote w fins \<in> set js \<longrightarrow> FinalizerName \<in> set fins \<and> w \<noteq> AddFinalizerCall)"
proof (cases b)
  case True
  then show ?thesis using Reconcile_deleting_journal [of env req d1 c1] assms by auto
next
  case False
  then show ?thesis
    using frame_Reconcile_references [of req c1 env d1] assms
    unfolding frame_def by auto
qed

lemma Reconcile_journal:
  "\<exists>js. journal (snd (Reconcile env c req)) = journal c @ js
     \<and> (\<forall>w fins. Wrote w fins \<in> set js \<longrightarrow> w \<noteq> AddFinalizerCall \<longrightarrow> FinalizerName \<in> set fins)
     \<and> (\<forall>d. directories c req = Some d \<and> ContainsFinalizer d FinalizerName
           \<longrightarrow> (\<forall>fins. Wrote AddFinalizerCall fins \<notin> set js))
     \<and> (\<forall>d. fault env GetDirectorySite = None \<and> directories c req = Some d
             \<and> \<not> ContainsFinalizer d FinalizerName
           \<longrightarrow> (\<exists>rest. js = Wrote AddFinalizerCall (Finalizers (dirMeta d)) # rest))"
proof (cases "fault env GetDirectorySite = None \<and> directories c req \<noteq> None")
  case False
  then have "snd (Reconcile env c req) = c"
    by (auto simp: Reconcile_def split: option.splits)
  with False show ?thesis by auto
next
  case True
  then obtain d where d: "fault env GetDirectorySite = None" "directories c req = Some d"
    by auto
  show ?thesis
  proof (cases "ContainsFinalizer d FinalizerName \<or> fault env AddFinalizerSite = None")
    case False
    then have "journal (snd (Reconcile env c req))
        = journal c @ [Wrote AddFinalizerCall (Finalizers (dirMeta d))]"
      using d by (auto simp: Reconcile_def patchFinalizers_def Let_def logWrite_def
          storedFinalizers_def split: option.splits)
    with False d show ?thesis by auto
  next
    case ok: True
    let ?c1 = "liveCluster env c req d"
    from Reconcile_tail [OF liveCluster_storedFinalizers [OF d(2) ok],
        of "DeletionTimestamp (dirMeta d) \<noteq> None" env "AddFinalizer d FinalizerName"]
    obtain js where js: "journal (snd (Reconcile env c req)) = journal ?c1 @ js"
      "\<forall>w fins. Wrote w fins \<in> set js \<longrightarrow> FinalizerName \<in> set fins \<and> w \<noteq> AddFinalizerCall"
      using Reconcile_live [OF d ok] by auto
    let ?pre = "if ContainsFinalizer d FinalizerName then []
            else [Wrote AddFinalizerCall (Finalizers (dirMeta d))]"
    have "journal (snd (Reconcile env c req)) = journal c @ (?pre @ js)"
      using js(1) liveCluster_simps(3) [OF d(2) ok] by simp
    moreover have "\<forall>w fins. Wrote w fins \<in> set (?pre @ js) \<longrightarrow> w \<noteq> AddFinalizerCall
        \<longrightarrow> FinalizerName \<in> set fins"
      using js(2) by auto
    moreover have "ContainsFinalizer d FinalizerName
        \<longrightarrow> (\<forall>fins. Wrote AddFinalizerCall fins \<notin> set (?pre @ js))"
      using js(2) by auto
    moreover have "\<not> ContainsFinalizer d FinalizerName
        \<longrightarrow> (\<exists>rest. ?pre @ js = Wrote AddFinalizerCall (Finalizers (dirMeta d)) # rest)"
      by simp
    ultimately show ?thesis using d by (intro exI [of _ "?pre @ js"]) simp
  qed
qed

lemma adminPasswordSecretName_AddFinalizer [simp]:
  "adminPasswordSecretName (AddFinalizer d f) = adminPasswordSecretName d"
  by (simp add: adminPasswordSecretName_def)

lemma SetStatusCondition_member: "new \<in> set (SetStatusCondition xs new)"
  by (induction xs) auto

lemma Reconcile_secrets:
  "\<exists>js. journal (snd (Reconcile env c req)) = journal c @ js
     \<and> (\<forall>k' s. secrets c k' = Some s \<longrightarrow> secrets (snd (Reconcile env c req)) k' = Some s)
     \<and> (\<forall>d s. directories c req = Some d \<and> secrets c (adminPasswordSecretName d) = Some s
           \<longrightarrow> secrets (snd (Reconcile env c req)) = secrets c
             \<and> (\<forall>fins. Wrote CreateSecretCall fins \<notin> set js))"
proof (cases "fault env GetDirectorySite = None \<and> directories c req \<noteq> None")
  case False
  then have "snd (Reconcile env c req) = c"
    by (auto simp: Reconcile_def split: option.splits)
  then show ?thesis by auto
next
  case True
  then obtain d where d: "fault env GetDirectorySite = None" "directories c req = Some d"
    by auto
  show ?thesis
  proof (cases "ContainsFinalizer d FinalizerName \<or> fault env AddFinalizerSite = None")
    case False
    then have "journal (snd (Reconcile env c req))
        = journal c @ [Wrote AddFinalizerCall (Finalizers (dirMeta d))]"
      "secrets (snd (Reconcile env c req)) = secrets c"
      using d by (auto simp: Reconcile_def patchFinalizers_def Let_def logWrite_def
          storedFinalizers_def split: option.splits)
    then show ?thesis by auto
  next
    case ok: True
    let ?c1 = "liveCluster env c req d"
    let ?d1 = "AddFinalizer d FinalizerName"
    let ?pre = "if ContainsFinalizer d FinalizerName then []
            else [Wrote AddFinalizerCall (Finalizers (dirMeta d))]"
    note live = liveCluster_simps [OF d(2) ok]
    show ?thesis
    proof (cases "DeletionTimestamp (dirMeta d) \<noteq> None")
      case True
      then have eq: "Reconcile env c req = Reconcile_deleting env req ?d1 ?c1"
        using Reconcile_live [OF d ok] by simp
      from Reconcile_deleting_journal [of env req ?d1 ?c1] obtain js where
        js: "journal (snd (Reconcile env c req)) = journal ?c1 @ js"
          "\<forall>w fins. Wrote w fins \<in> set js \<longrightarrow> w = RemoveFinalizerCall"
          "secrets (snd (Reconcile env c req)) = secrets ?c1"
        unfolding eq by blast
      have "journal (snd (Reconcile env c req)) = journal c @ (?pre @ js)"
        using js(1) live(3) by simp
      moreover have "\<forall>fins. Wrote CreateSecretCall fins \<notin> set (?pre @ js)"
        using js(2) by auto
      moreover have "secrets (snd (Reconcile env c req)) = secrets c"
        using js(3) live(1) by simp
      ultimately show ?thesis by (intro exI [of _ "?pre @ js"]) simp
    next
      case False
      then have eq: "Reconcile env c req = Reconcile_references env req ?d1 ?c1"
        using Reconcile_live [OF d ok] by simp
      have "frame False req ?c1 (snd (Reconcile env c req))"
        unfolding eq by (rule frame_Reconcile_references)
      then obtain js where
        js: "journal (snd (Reconcile env c req)) = journal ?c1 @ js"
          and keep: "\<forall>k' s. secrets ?c1 k' = Some s
                \<longrightarrow> secrets (snd (Reconcile env c req)) k' = Some s"
        unfolding frame_def by blast
      have j: "journal (snd (Reconcile env c req)) = journal c @ (?pre @ js)"
        using js live(3) by simp
      have strict: "secrets (snd (Reconcile env c req)) = secrets c
             \<and> (\<forall>fins. Wrote CreateSecretCall fins \<notin> set (?pre @ js))"
        if "secrets c (adminPasswordSecretName d) = Some s" for s
      proof -
        from that have "secrets ?c1 (adminPasswordSecretName ?d1) = Some s"
          using live(1) by simp
        then have "frame True req ?c1 (snd (Reconcile env c req))"
          unfolding eq by (rule frame_Reconcile_references_strict)
        then obtain js' where js': "journal (snd (Reconcile env c req)) = journal ?c1 @ js'"
          "\<forall>w fins. Wrote w fins \<in> set js' \<longrightarrow> w \<noteq> CreateSecretCall"
          "secrets (snd (Reconcile env c req)) = secrets ?c1"
          unfolding frame_def by blast
        from js js'(1) have "js' = js" by simp
        with js'(2,3) live(1) show ?thesis by auto
      qed
      show ?thesis
        using j keep live(1) strict d(2) by (intro exI [of _ "?pre @ js"]) auto
    qed
  qed
qed

lemma Reconcile_creates_secret:
  assumes d: "fault env GetDirectorySite = None" "directories c req = Some d"
    and ok: "ContainsFinalizer d FinalizerName \<or> fault env AddFinalizerSite = None"
    and live: "DeletionTimestamp (dirMeta d) = None"
    and refs: "LDAPDirectory_ResolveReferences (envReader env) d = (True, None)"
    and absent: "fault env GetSecretSite = None" "secrets c (adminPasswordSecretName d) = None"
    and gen: "Generate env adminPasswordLength = Inr pw"
    and create: "fault env SetSecretOwnerSite = None" "fault env CreateSecretSite = None"
  shows "(\<exists>s. secrets (snd (Reconcile env c req)) (adminPasswordSecretName d) = Some s
            \<and> Data s = [(''password'', pw)])
       \<and> (\<forall>k'. k' \<noteq> adminPasswordSecretName d
            \<longrightarrow> secrets (snd (Reconcile env c req)) k' = secrets c k')"
proof -
  let ?c1 = "liveCluster env c req d"
  let ?d1 = "AddFinalizer d FinalizerName"
  have eq: "Reconcile env c req = Reconcile_references env req ?d1 ?c1"
    using Reconcile_live [OF d ok] live by simp
  have sec: "secrets ?c1 = secrets c" by (rule liveCluster_simps(1) [OF d(2) ok])
  obtain c2 where c2: "Reconcile_adminPassword env req ?d1 ?c1 = Inr c2"
    "\<exists>s. secrets c2 (adminPasswordSecretName d) = Some s \<and> Data s = [(''password'', pw)]"
    "\<forall>k'. k' \<noteq> adminPasswordSecretName d \<longrightarrow> secrets c2 k' = secrets c k'"
    using absent gen create sec
    by (simp add: Reconcile_adminPassword_def Let_def logWrite_def)
  have "Reconcile env c req = Reconcile_resources env req ?d1 c2"
    using refs c2(1) unfolding eq by (simp add: Reconcile_references_def)
  moreover have "secrets (snd (Reconcile_resources env req ?d1 c2)) = secrets c2"
    using frame_Reconcile_resources [of True req c2 env ?d1] by (simp add: frame_def)
  ultimately show ?thesis using c2(2,3) by simp
qed

lemma Reconcile_unresolved:
  assumes d: "fault env GetDirectorySite = None" "directories c req = Some d"
    and ok: "ContainsFinalizer d FinalizerName \<or> fault env AddFinalizerSite = None"
    and live: "DeletionTimestamp (dirMeta d) = None"
    and refs: "LDAPDirectory_ResolveReferences (envReader env) d = (False, None)"
    and upd: "fault env UpdateStatusSite = None"
  shows "fst (Reconcile env c req) = (\<lparr>Requeue = False, RequeueAfter = 5000000000\<rparr>, None)"
    and "\<exists>d'. directories (snd (Reconcile env c req)) req = Some d'
           \<and> Phase (dirStatus d') = LDAPDirectoryPhasePending"
    and "Emitted \<lparr>eventType = EventTypeWarning, eventReason = ''NotReady'',
            eventMessage = ''Not all references are resolvable''\<rparr>
          \<in> set (newEffects env c req)"
proof -
  let ?c1 = "liveCluster env c req d"
  let ?d1 = "AddFinalizer d FinalizerName"
  have eq: "Reconcile env c req = Reconcile_references env req ?d1 ?c1"
    using Reconcile_live [OF d ok] live by simp
  from liveCluster_simps(2) [OF d(2) ok] obtain d' where d': "directories ?c1 req = Some d'"
    by blast
  note j = liveCluster_simps(3) [OF d(2) ok]
  show "fst (Reconcile env c req) = (\<lparr>Requeue = False, RequeueAfter = 5000000000\<rparr>, None)"
    unfolding eq using refs upd
    by (simp add: Reconcile_references_def markPending_def UpdateStatus_def Let_def
        reconcileRetryInterval_def Second_def)
  show "\<exists>d'. directories (snd (Reconcile env c req)) req = Some d'
           \<and> Phase (dirStatus d') = LDAPDirectoryPhasePending"
    unfolding eq using refs upd d'
    by (simp add: Reconcile_references_def markPending_def UpdateStatus_def Let_def
        logWrite_def recordEvent_def)
  show "Emitted \<lparr>eventType = EventTypeWarning, eventReason = ''NotReady'',
            eventMessage = ''Not all references are resolvable''\<rparr>
          \<in> set (newEffects env c req)"
    unfolding newEffects_def eq using refs upd j
    by (simp add: Reconcile_references_def markPending_def UpdateStatus_def Let_def
        logWrite_def recordEvent_def)
qed

lemma Reconcile_resolution_error:
  assumes d: "fault env GetDirectorySite = None" "directories c req = Some d"
    and ok: "ContainsFinalizer d FinalizerName \<or> fault env AddFinalizerSite = None"
    and live: "DeletionTimestamp (dirMeta d) = None"
    and refs: "LDAPDirectory_ResolveReferences (envReader env) d = (b, Some e)"
  shows "fst (Reconcile env c req)
           = (\<lparr>Requeue = False, RequeueAfter = 0\<rparr>, Some (wrap ''failed to resolve references'' e))"
    and "Emitted \<lparr>eventType = EventTypeWarning, eventReason = ''Failed'',
            eventMessage = ''Failed to resolve references: '' @ errorMessage e\<rparr>
          \<in> set (newEffects env c req)"
    and "fault env UpdateStatusSite = None \<longrightarrow>
          (\<exists>d'. directories (snd (Reconcile env c req)) req = Some d'
             \<and> Phase (dirStatus d') = LDAPDirectoryPhaseFailed
             \<and> (\<exists>cond\<in>set (Conditions (dirStatus d')).
                   condType cond = LDAPDirectoryConditionTypeFailed
                   \<and> condMessage cond = errorMessage (wrap ''failed to resolve references'' e)))"
proof -
  let ?c1 = "liveCluster env c req d"
  let ?d1 = "AddFinalizer d FinalizerName"
  have eq: "Reconcile env c req = Reconcile_references env req ?d1 ?c1"
    using Reconcile_live [OF d ok] live by simp
  from liveCluster_simps(2) [OF d(2) ok] obtain d' where d': "directories ?c1 req = Some d'"
    by blast
  note j = liveCluster_simps(3) [OF d(2) ok]
  have rr: "Reconcile_references env req ?d1 ?c1
      = failWith env req ?d1 ''Failed to resolve references'' ''failed to resolve references'' e ?c1"
    using refs by (simp add: Reconcile_references_def)
  show "fst (Reconcile env c req)
           = (\<lparr>Requeue = False, RequeueAfter = 0\<rparr>, Some (wrap ''failed to resolve references'' e))"
    unfolding eq rr
    by (simp add: failWith_def Let_def emptyResult_def split: prod.splits)
  show "Emitted \<lparr>eventType = EventTypeWarning, eventReason = ''Failed'',
            eventMessage = ''Failed to resolve references: '' @ errorMessage e\<rparr>
          \<in> set (newEffects env c req)"
    unfolding newEffects_def eq rr using j
    by (auto simp: failWith_def markFailed_def UpdateStatus_def Let_def logWrite_def
        recordEvent_def split: prod.splits option.splits)
  show "fault env UpdateStatusSite = None \<longrightarrow>
          (\<exists>d'. directories (snd (Reconcile env c req)) req = Some d'
             \<and> Phase (dirStatus d') = LDAPDirectoryPhaseFailed
             \<and> (\<exists>cond\<in>set (Conditions (dirStatus d')).
                   condType cond = LDAPDirectoryConditionTypeFailed
                   \<and> condMessage cond = errorMessage (wrap ''failed to resolve references'' e)))"
    unfolding eq rr using d'
    by (auto simp: failWith_def markFailed_def UpdateStatus_def Let_def logWrite_def
        recordEvent_def SetStatusCondition_member
        intro!: bexI [of _ "\<lparr>condType = LDAPDirectoryConditionTypeFailed, condStatus = True,
              condObservedGeneration = Generation (dirMeta d),
              condReason = ''Failed'',
              condMessage = errorMessage (wrap ''failed to resolve references'' e)\<rparr>"])
qed

section \<open>The controller: the claims\<close>

lemmas example_defs =
  exampleEnv_def exampleCluster_def exampleDirectory_def exampleMeta_def exampleReader_def

lemmas Reconcile_defs =
  Reconcile_def Reconcile_references_def Reconcile_deleting_def Reconcile_adminPassword_def
  Reconcile_resources_def failWith_def markFailed_def markPending_def markReady_def
  UpdateStatus_def patchFinalizers_def logWrite_def recordEvent_def storedFinalizers_def
  applyStatefulSet_def isStatefulSetReady_def resourceName_def adminPasswordSecretName_def
  AddFinalizer_def RemoveFinalizer_def ContainsFinalizer_def FinalizerName_def
  LDAPDirectory_ResolveReferences_def emptyResult_def reconcileRetryInterval_def Second_def
  adminPasswordLength_def newEffects_def Let_def

lemma liveCluster_status:
  assumes "directories c req = Some d"
    and "ContainsFinalizer d FinalizerName \<or> fault env AddFinalizerSite = None"
  shows "map_option dirStatus (directories (liveCluster env c req d) req) = Some (dirStatus d)"
  using assms
  by (auto simp: liveCluster_def patchFinalizers_def Let_def logWrite_def)

lemma Reconcile_unresolved_attempt:
  assumes d: "fault env GetDirectorySite = None" "directories c req = Some d"
    and ok: "ContainsFinalizer d FinalizerName \<or> fault env AddFinalizerSite = None"
    and live: "DeletionTimestamp (dirMeta d) = None"
    and refs: "LDAPDirectory_ResolveReferences (envReader env) d = (False, None)"
  shows "Emitted \<lparr>eventType = EventTypeWarning, eventReason = ''NotReady'',
            eventMessage = ''Not all references are resolvable''\<rparr>
          \<in> set (newEffects env c req)"
    and "\<exists>fins. Wrote (UpdateStatusCall LDAPDirectoryPhasePending) fins
          \<in> set (newEffects env c req)"
    and "fault env UpdateStatusSite = Some e' \<Longrightarrow>
          fst (Reconcile env c req)
            = (\<lparr>Requeue = False, RequeueAfter = 0\<rparr>, Some (wrap ''failed to mark as pending'' e'))"
    and "fault env UpdateStatusSite = Some e' \<Longrightarrow>
          map_option dirStatus (directories (snd (Reconcile env c req)) req) = Some (dirStatus d)"
proof -
  let ?c1 = "liveCluster env c req d"
  let ?d1 = "AddFinalizer d FinalizerName"
  have eq: "Reconcile env c req = Reconcile_references env req ?d1 ?c1"
    using Reconcile_live [OF d ok] live by simp
  note j = liveCluster_simps(3) [OF d(2) ok]
  note st = liveCluster_status [OF d(2) ok]
  show "Emitted \<lparr>eventType = EventTypeWarning, eventReason = ''NotReady'',
            eventMessage = ''Not all references are resolvable''\<rparr>
          \<in> set (newEffects env c req)"
    unfolding newEffects_def eq using refs j
    by (auto simp: Reconcile_references_def markPending_def UpdateStatus_def Let_def
        logWrite_def recordEvent_def split: option.splits)
  show "\<exists>fins. Wrote (UpdateStatusCall LDAPDirectoryPhasePending) fins
          \<in> set (newEffects env c req)"
    unfolding newEffects_def eq using refs j
    by (auto simp: Reconcile_references_def markPending_def UpdateStatus_def Let_def
        logWrite_def recordEvent_def split: option.splits)
  show "fst (Reconcile env c req)
            = (\<lparr>Requeue = False, RequeueAfter = 0\<rparr>, Some (wrap ''failed to mark as pending'' e'))"
    if "fault env UpdateStatusSite = Some e'"
    unfolding eq using refs that
    by (simp add: Reconcile_references_def markPending_def UpdateStatus_def Let_def
        emptyResult_def)
  show "map_option dirStatus (directories (snd (Reconcile env c req)) req) = Some (dirStatus d)"
    if "fault env UpdateStatusSite = Some e'"
    unfolding eq using refs that st
    by (simp add: Reconcile_references_def markPending_def UpdateStatus_def Let_def
        logWrite_def recordEvent_def)
qed

lemma Reconcile_resolution_error_attempt:
  assumes d: "fault env GetDirectorySite = None" "directories c req = Some d"
    and ok: "ContainsFinalizer d FinalizerName \<or> fault env AddFinalizerSite = None"
    and live: "DeletionTimestamp (dirMeta d) = None"
    and refs: "LDAPDirectory_ResolveReferences (envReader env) d = (b, Some e)"
  shows "\<exists>fins. Wrote (UpdateStatusCall LDAPDirectoryPhaseFailed) fins
          \<in> set (newEffects env c req)"
    and "fault env UpdateStatusSite = Some e' \<Longrightarrow>
          map_option dirStatus (directories (snd (Reconcile env c req)) req) = Some (dirStatus d)"
proof -
  let ?c1 = "liveCluster env c req d"
  let ?d1 = "AddFinalizer d FinalizerName"
  have eq: "Reconcile env c req = Reconcile_references env req ?d1 ?c1"
    using Reconcile_live [OF d ok] live by simp
  note j = liveCluster_simps(3) [OF d(2) ok]
  note st = liveCluster_status [OF d(2) ok]
  have rr: "Reconcile_references env req ?d1 ?c1
      = failWith env req ?d1 ''Failed to resolve references'' ''failed to resolve references'' e ?c1"
    using refs by (simp add: Reconcile_references_def)
  show "\<exists>fins. Wrote (UpdateStatusCall LDAPDirectoryPhaseFailed) fins
          \<in> set (newEffects env c req)"
    unfolding newEffects_def eq rr using j
    by (auto simp: failWith_def markFailed_def UpdateStatus_def Let_def logWrite_def
        recordEvent_def split: prod.splits option.splits)
  show "map_option dirStatus (directories (snd (Reconcile env c req)) req) = Some (dirStatus d)"
    if "fault env UpdateStatusSite = Some e'"
    unfolding eq rr using that st
    by (simp add: failWith_def markFailed_def UpdateStatus_def Let_def logWrite_def
        recordEvent_def)
qed

text \<open>
  C3, as stated, fails: in the environment \<open>brokenStatusEnv\<close> the references of the
  directory are unresolved and the status update fails; the pass returns the error of the
  update with no requeue interval, and the phase stored is not Pending.
\<close>

theorem Reconcile_unresolved_counterexample:
  "fault brokenStatusEnv GetDirectorySite = None
   \<and> directories exampleCluster (''default'', ''example'') = Some exampleDirectory
   \<and> DeletionTimestamp (dirMeta exampleDirectory) = None
   \<and> LDAPDirectory_ResolveReferences (envReader brokenStatusEnv) exampleDirectory = (False, None)
   \<and> fst (Reconcile brokenStatusEnv exampleCluster (''default'', ''example''))
       = (\<lparr>Requeue = False, RequeueAfter = 0\<rparr>, Some (Error ''failed to mark as pending: boom''))
   \<and> map_option (Phase \<circ> dirStatus)
        (directories (snd (Reconcile brokenStatusEnv exampleCluster (''default'', ''example'')))
           (''default'', ''example''))
       = Some LDAPDirectoryPhaseUnset"
  by (simp add: Reconcile_defs example_defs unresolvedEnv_def brokenStatusEnv_def)

text \<open>
  C3, amended. A pass over an object that is not being deleted, once the finalizer is on it.
  When the references are unresolved (\<^verbatim>\<open>false\<close>, no error), the \<^verbatim>\<open>NotReady\<close> event is sent
  and a status update to Pending is attempted; if the update succeeds, the phase stored is
  Pending and the result is a requeue after five seconds with no error; if it fails, the
  result is the error of the update with no requeue interval and the stored status is as
  before. When the resolution fails, the \<^verbatim>\<open>Failed\<close> event is sent, a status update to
  Failed is attempted, and the result is the wrapped error with no requeue interval; the
  phase stored is Failed with the message of that error if the update succeeds, and the
  stored status is as before if it fails.
\<close>

theorem Reconcile_unresolved_or_failed:
  assumes "fault env GetDirectorySite = None" and "directories c req = Some d"
    and "ContainsFinalizer d FinalizerName \<or> fault env AddFinalizerSite = None"
    and "DeletionTimestamp (dirMeta d) = None"
  shows
    "(LDAPDirectory_ResolveReferences (envReader env) d = (False, None)
      \<longrightarrow> Emitted \<lparr>eventType = EventTypeWarning, eventReason = ''NotReady'',
                      eventMessage = ''Not all references are resolvable''\<rparr>
               \<in> set (newEffects env c req)
          \<and> (\<exists>fins. Wrote (UpdateStatusCall LDAPDirectoryPhasePending) fins
                \<in> set (newEffects env c req))
          \<and> (fault env UpdateStatusSite = None
              \<longrightarrow> fst (Reconcile env c req)
                    = (\<lparr>Requeue = False, RequeueAfter = reconcileRetryInterval\<rparr>, None)
                  \<and> reconcileRetryInterval = 5 * 1000000000
                  \<and> (\<exists>d'. directories (snd (Reconcile env c req)) req = Some d'
                        \<and> Phase (dirStatus d') = LDAPDirectoryPhasePending))
          \<and> (\<forall>e'. fault env UpdateStatusSite = Some e'
              \<longrightarrow> fst (Reconcile env c req)
                    = (\<lparr>Requeue = False, RequeueAfter = 0\<rparr>,
                       Some (wrap ''failed to mark as pending'' e'))
                  \<and> map_option dirStatus (directories (snd (Reconcile env c req)) req)
                      = Some (dirStatus d)))
     \<and> (\<forall>ok e. LDAPDirectory_ResolveReferences (envReader env) d = (ok, Some e)
      \<longrightarrow> fst (Reconcile env c req)
            = (\<lparr>Requeue = False, RequeueAfter = 0\<rparr>,
               Some (wrap ''failed to resolve references'' e))
          \<and> Emitted \<lparr>eventType = EventTypeWarning, eventReason = ''Failed'',
                      eventMessage = ''Failed to resolve references: '' @ errorMessage e\<rparr>
               \<in> set (newEffects env c req)
          \<and> (\<exists>fins. Wrote (UpdateStatusCall LDAPDirectoryPhaseFailed) fins
                \<in> set (newEffects env c req))
          \<and> (fault env UpdateStatusSite = None \<longrightarrow>
               (\<exists>d'. directories (snd (Reconcile env c req)) req = Some d'
                  \<and> Phase (dirStatus d') = LDAPDirectoryPhaseFailed
                  \<and> (\<exists>cond\<in>set (Conditions (dirStatus d')).
                        condType cond = LDAPDirectoryConditionTypeFailed
                        \<and> condMessage cond
                            = errorMessage (wrap ''failed to resolve references'' e))))
          \<and> (\<forall>e'. fault env UpdateStatusSite = Some e'
              \<longrightarrow> map_option dirStatus (directories (snd (Reconcile env c req)) req)
                      = Some (dirStatus d)))"
proof (intro conjI allI impI)
  assume refs: "LDAPDirectory_ResolveReferences (envReader env) d = (False, None)"
  note a = Reconcile_unresolved_attempt [OF assms refs]
  show "Emitted \<lparr>eventType = EventTypeWarning, eventReason = ''NotReady'',
                      eventMessage = ''Not all references are resolvable''\<rparr>
               \<in> set (newEffects env c req)"
    by (rule a(1))
  show "\<exists>fins. Wrote (UpdateStatusCall LDAPDirectoryPhasePending) fins
                \<in> set (newEffects env c req)"
    by (rule a(2))
  {
    assume upd: "fault env UpdateStatusSite = None"
    note u = Reconcile_unresolved [OF assms refs upd]
    show "fst (Reconcile env c req)
        = (\<lparr>Requeue = False, RequeueAfter = reconcileRetryInterval\<rparr>, None)"
      using u(1) by (simp add: reconcileRetryInterval_def Second_def)
    show "reconcileRetryInterval = 5 * 1000000000"
      by (simp add: reconcileRetryInterval_def Second_def)
    show "\<exists>d'. directories (snd (Reconcile env c req)) req = Some d'
                  \<and> Phase (dirStatus d') = LDAPDirectoryPhasePending"
      by (rule u(2))
  }
  {
    fix e'
    assume upd: "fault env UpdateStatusSite = Some e'"
    show "fst (Reconcile env c req)
                    = (\<lparr>Requeue = False, RequeueAfter = 0\<rparr>,
                       Some (wrap ''failed to mark as pending'' e'))"
      using upd by (rule a(3))
    show "map_option dirStatus (directories (snd (Reconcile env c req)) req)
                      = Some (dirStatus d)"
      using upd by (rule a(4))
  }
next
  fix ok e
  assume refs: "LDAPDirectory_ResolveReferences (envReader env) d = (ok, Some e)"
  note f = Reconcile_resolution_error [OF assms refs]
  note g = Reconcile_resolution_error_attempt [OF assms refs]
  show "fst (Reconcile env c req)
            = (\<lparr>Requeue = False, RequeueAfter = 0\<rparr>,
               Some (wrap ''failed to resolve references'' e))"
    by (rule f(1))
  show "Emitted \<lparr>eventType = EventTypeWarning, eventReason = ''Failed'',
                      eventMessage = ''Failed to resolve references: '' @ errorMessage e\<rparr>
               \<in> set (newEffects env c req)"
    by (rule f(2))
  show "\<exists>fins. Wrote (UpdateStatusCall LDAPDirectoryPhaseFailed) fins
                \<in> set (newEffects env c req)"
    by (rule g(1))
  show "\<exists>d'. directories (snd (Reconcile env c req)) req = Some d'
                  \<and> Phase (dirStatus d') = LDAPDirectoryPhaseFailed
                  \<and> (\<exists>cond\<in>set (Conditions (dirStatus d')).
                        condType cond = LDAPDirectoryConditionTypeFailed
                        \<and> condMessage cond
                            = errorMessage (wrap ''failed to resolve references'' e))"
    if "fault env UpdateStatusSite = None"
    using f(3) that by blast
  show "map_option dirStatus (directories (snd (Reconcile env c req)) req) = Some (dirStatus d)"
    if "fault env UpdateStatusSite = Some e'" for e'
    using that by (rule g(2))
qed

theorem Reconcile_unresolved_or_failed_witness:
  "fst (Reconcile unresolvedEnv exampleCluster (''default'', ''example''))
     = (\<lparr>Requeue = False, RequeueAfter = 5000000000\<rparr>, None)
   \<and> fst (Reconcile brokenStatusEnv exampleCluster (''default'', ''example''))
     = (\<lparr>Requeue = False, RequeueAfter = 0\<rparr>, Some (Error ''failed to mark as pending: boom''))
   \<and> fst (Reconcile
         (exampleEnv\<lparr>envReader := exampleReader\<lparr>resolveSecret :=
            \<lambda>ns ref. (None, False, Some (Error ''timeout''))\<rparr>\<rparr>)
         exampleCluster (''default'', ''example''))
     = (\<lparr>Requeue = False, RequeueAfter = 0\<rparr>,
        Some (Error ''failed to resolve references: timeout''))"
proof -
  let ?failing =
    "exampleEnv\<lparr>envReader := exampleReader\<lparr>resolveSecret :=
        \<lambda>ns ref. (None, False, Some (Error ''timeout''))\<rparr>\<rparr>"
  let ?k = "(''default'', ''example'')"
  have c: "directories exampleCluster ?k = Some exampleDirectory"
      "DeletionTimestamp (dirMeta exampleDirectory) = None"
    by (simp_all add: example_defs)
  have a: "fault unresolvedEnv GetDirectorySite = None"
      "ContainsFinalizer exampleDirectory FinalizerName \<or> fault unresolvedEnv AddFinalizerSite = None"
    by (simp_all add: example_defs unresolvedEnv_def)
  have b: "fault brokenStatusEnv GetDirectorySite = None"
      "ContainsFinalizer exampleDirectory FinalizerName \<or> fault brokenStatusEnv AddFinalizerSite = None"
    by (simp_all add: example_defs unresolvedEnv_def brokenStatusEnv_def)
  have f: "fault ?failing GetDirectorySite = None"
      "ContainsFinalizer exampleDirectory FinalizerName \<or> fault ?failing AddFinalizerSite = None"
    by (simp_all add: example_defs)
  have ua: "LDAPDirectory_ResolveReferences (envReader unresolvedEnv) exampleDirectory = (False, None)"
    "fault unresolvedEnv UpdateStatusSite = None"
    by (simp_all add: example_defs unresolvedEnv_def LDAPDirectory_ResolveReferences_def)
  have ub: "LDAPDirectory_ResolveReferences (envReader brokenStatusEnv) exampleDirectory = (False, None)"
    "fault brokenStatusEnv UpdateStatusSite = Some (Error ''boom'')"
    by (simp_all add: example_defs unresolvedEnv_def brokenStatusEnv_def
        LDAPDirectory_ResolveReferences_def)
  have uf: "LDAPDirectory_ResolveReferences (envReader ?failing) exampleDirectory
      = (False, Some (Error ''timeout''))"
    by (simp add: example_defs LDAPDirectory_ResolveReferences_def)
  have "fst (Reconcile unresolvedEnv exampleCluster ?k)
     = (\<lparr>Requeue = False, RequeueAfter = reconcileRetryInterval\<rparr>, None)"
    using Reconcile_unresolved_or_failed [OF a(1) c(1) a(2) c(2)] ua by blast
  moreover have "fst (Reconcile brokenStatusEnv exampleCluster ?k)
     = (\<lparr>Requeue = False, RequeueAfter = 0\<rparr>,
        Some (wrap ''failed to mark as pending'' (Error ''boom'')))"
    using Reconcile_unresolved_or_failed [OF b(1) c(1) b(2) c(2)] ub by blast
  moreover have "fst (Reconcile ?failing exampleCluster ?k)
     = (\<lparr>Requeue = False, RequeueAfter = 0\<rparr>,
        Some (wrap ''failed to resolve references'' (Error ''timeout'')))"
    using Reconcile_unresolved_or_failed [OF f(1) c(1) f(2) c(2)] uf by blast
  ultimately show ?thesis
    by (simp add: reconcileRetryInterval_def Second_def)
qed

lemma example_newEffects:
  "newEffects exampleEnv exampleCluster (''default'', ''example'') =
       [Wrote AddFinalizerCall [],
        Wrote CreateSecretCall [''ldap.gpu-ninja.com/finalizer''],
        Wrote ApplyStatefulSetCall [''ldap.gpu-ninja.com/finalizer''],
        Wrote ApplyServiceCall [''ldap.gpu-ninja.com/finalizer''],
        Emitted
         \<lparr>eventType = EventTypeNormal, eventReason = ''Pending'',
            eventMessage = ''Waiting for statefulset to become ready''\<rparr>,
        Wrote (UpdateStatusCall LDAPDirectoryPhasePending)
         [''ldap.gpu-ninja.com/finalizer'']]"
  by (simp add: Reconcile_defs example_defs)

text \<open>
  C7. In every pass the finalizer comes first: every write that the pass attempts, other
  than the patch that adds the finalizer, is made while the stored record carries the
  finalizer; when the record lacks the finalizer, the first effect of the pass is that
  patch; when the record has it, no such patch is made.
\<close>

theorem Reconcile_finalizer_first:
  "journal (snd (Reconcile env c req)) = journal c @ newEffects env c req
   \<and> (\<forall>w fins. Wrote w fins \<in> set (newEffects env c req) \<longrightarrow> w \<noteq> AddFinalizerCall
         \<longrightarrow> FinalizerName \<in> set fins)
   \<and> (\<forall>d. directories c req = Some d \<and> ContainsFinalizer d FinalizerName
         \<longrightarrow> (\<forall>fins. Wrote AddFinalizerCall fins \<notin> set (newEffects env c req)))
   \<and> (\<forall>d. fault env GetDirectorySite = None \<and> directories c req = Some d
           \<and> \<not> ContainsFinalizer d FinalizerName
         \<longrightarrow> (\<exists>rest. newEffects env c req
                = Wrote AddFinalizerCall (Finalizers (dirMeta d)) # rest))"
proof -
  from Reconcile_journal [of env c req] obtain js where
    js: "journal (snd (Reconcile env c req)) = journal c @ js"
     "\<forall>w fins. Wrote w fins \<in> set js \<longrightarrow> w \<noteq> AddFinalizerCall \<longrightarrow> FinalizerName \<in> set fins"
     "\<forall>d. directories c req = Some d \<and> ContainsFinalizer d FinalizerName
           \<longrightarrow> (\<forall>fins. Wrote AddFinalizerCall fins \<notin> set js)"
     "\<forall>d. fault env GetDirectorySite = None \<and> directories c req = Some d
             \<and> \<not> ContainsFinalizer d FinalizerName
           \<longrightarrow> (\<exists>rest. js = Wrote AddFinalizerCall (Finalizers (dirMeta d)) # rest)"
    by blast
  from js(1) have "newEffects env c req = js" by (simp add: newEffects_def)
  with js show ?thesis by simp
qed

theorem Reconcile_finalizer_first_witness:
  "(\<exists>rest. newEffects exampleEnv exampleCluster (''default'', ''example'')
       = Wrote AddFinalizerCall [] # rest)
   \<and> Wrote CreateSecretCall [FinalizerName]
       \<in> set (newEffects exampleEnv exampleCluster (''default'', ''example''))
   \<and> FinalizerName \<in> set [FinalizerName]
   \<and> (\<forall>fins. Wrote AddFinalizerCall fins
       \<notin> set (newEffects exampleEnv
           (exampleCluster\<lparr>directories := [(''default'', ''example'') \<mapsto>
              AddFinalizer exampleDirectory FinalizerName]\<rparr>)
           (''default'', ''example'')))"
proof -
  let ?k = "(''default'', ''example'')"
  let ?c2 = "exampleCluster\<lparr>directories := [?k \<mapsto> AddFinalizer exampleDirectory FinalizerName]\<rparr>"
  note thm1 = Reconcile_finalizer_first [of exampleEnv exampleCluster ?k]
  note thm2 = Reconcile_finalizer_first [of exampleEnv ?c2 ?k]
  have absent: "fault exampleEnv GetDirectorySite = None
      \<and> directories exampleCluster ?k = Some exampleDirectory
      \<and> \<not> ContainsFinalizer exampleDirectory FinalizerName"
    by (simp add: example_defs ContainsFinalizer_def)
  have "Finalizers (dirMeta exampleDirectory) = []"
    by (simp add: example_defs)
  with absent thm1 have first: "\<exists>rest. newEffects exampleEnv exampleCluster ?k
       = Wrote AddFinalizerCall [] # rest"
    by metis
  have wr: "Wrote CreateSecretCall [FinalizerName] \<in> set (newEffects exampleEnv exampleCluster ?k)"
    by (simp add: Reconcile_defs example_defs)
  with thm1 have guarded: "FinalizerName \<in> set [FinalizerName]"
    by blast
  have "directories ?c2 ?k = Some (AddFinalizer exampleDirectory FinalizerName)
      \<and> ContainsFinalizer (AddFinalizer exampleDirectory FinalizerName) FinalizerName"
    by (simp add: ContainsFinalizer_def)
  with thm2 have "\<forall>fins. Wrote AddFinalizerCall fins \<notin> set (newEffects exampleEnv ?c2 ?k)"
    by blast
  with first wr guarded show ?thesis by blast
qed

text \<open>
  C8. The admin password secret. When a pass reaches the secret, finds none and every call
  succeeds, it stores a secret whose \<^verbatim>\<open>password\<close> is what the generator returns for the
  length 32, and touches no other secret. When the secret of the directory exists, the pass
  leaves all secrets as they are and attempts no creation. In every pass, a secret that
  exists stays as it is.
\<close>

theorem Reconcile_adminPassword_once:
  "adminPasswordLength = 32
   \<and> (\<forall>d pw.
        fault env GetDirectorySite = None \<and> directories c req = Some d
        \<and> (ContainsFinalizer d FinalizerName \<or> fault env AddFinalizerSite = None)
        \<and> DeletionTimestamp (dirMeta d) = None
        \<and> LDAPDirectory_ResolveReferences (envReader env) d = (True, None)
        \<and> fault env GetSecretSite = None \<and> secrets c (adminPasswordSecretName d) = None
        \<and> Generate env adminPasswordLength = Inr pw
        \<and> fault env SetSecretOwnerSite = None \<and> fault env CreateSecretSite = None
      \<longrightarrow> (\<exists>s. secrets (snd (Reconcile env c req)) (adminPasswordSecretName d) = Some s
               \<and> Data s = [(''password'', pw)])
          \<and> (\<forall>k'. k' \<noteq> adminPasswordSecretName d
               \<longrightarrow> secrets (snd (Reconcile env c req)) k' = secrets c k'))
   \<and> (\<forall>d s. directories c req = Some d \<and> secrets c (adminPasswordSecretName d) = Some s
      \<longrightarrow> secrets (snd (Reconcile env c req)) = secrets c
          \<and> (\<forall>fins. Wrote CreateSecretCall fins \<notin> set (newEffects env c req)))
   \<and> (\<forall>k' s. secrets c k' = Some s \<longrightarrow> secrets (snd (Reconcile env c req)) k' = Some s)"
proof -
  from Reconcile_secrets [of env c req] obtain js where
    js: "journal (snd (Reconcile env c req)) = journal c @ js"
     "\<forall>k' s. secrets c k' = Some s \<longrightarrow> secrets (snd (Reconcile env c req)) k' = Some s"
     "\<forall>d s. directories c req = Some d \<and> secrets c (adminPasswordSecretName d) = Some s
           \<longrightarrow> secrets (snd (Reconcile env c req)) = secrets c
             \<and> (\<forall>fins. Wrote CreateSecretCall fins \<notin> set js)"
    by blast
  from js(1) have new: "newEffects env c req = js" by (simp add: newEffects_def)
  have p1: "adminPasswordLength = 32" by (simp add: adminPasswordLength_def)
  have p2: "\<forall>d pw.
        fault env GetDirectorySite = None \<and> directories c req = Some d
        \<and> (ContainsFinalizer d FinalizerName \<or> fault env AddFinalizerSite = None)
        \<and> DeletionTimestamp (dirMeta d) = None
        \<and> LDAPDirectory_ResolveReferences (envReader env) d = (True, None)
        \<and> fault env GetSecretSite = None \<and> secrets c (adminPasswordSecretName d) = None
        \<and> Generate env adminPasswordLength = Inr pw
        \<and> fault env SetSecretOwnerSite = None \<and> fault env CreateSecretSite = None
      \<longrightarrow> (\<exists>s. secrets (snd (Reconcile env c req)) (adminPasswordSecretName d) = Some s
               \<and> Data s = [(''password'', pw)])
          \<and> (\<forall>k'. k' \<noteq> adminPasswordSecretName d
               \<longrightarrow> secrets (snd (Reconcile env c req)) k' = secrets c k')"
    using Reconcile_creates_secret [of env c req] by blast
  have p3: "\<forall>d s. directories c req = Some d \<and> secrets c (adminPasswordSecretName d) = Some s
      \<longrightarrow> secrets (snd (Reconcile env c req)) = secrets c
          \<and> (\<forall>fins. Wrote CreateSecretCall fins \<notin> set (newEffects env c req))"
    using js(3) unfolding new .
  show ?thesis by (rule conjI [OF p1 conjI [OF p2 conjI [OF p3 js(2)]]])
qed

theorem Reconcile_adminPassword_once_witness:
  "(\<exists>s. secrets (snd (Reconcile exampleEnv exampleCluster (''default'', ''example'')))
            (''default'', ''ldap-example-admin-password'') = Some s
        \<and> Data s = [(''password'', replicate 32 (CHR ''x''))])
   \<and> secrets (snd (Reconcile exampleEnv
         (exampleCluster\<lparr>secrets := [(''default'', ''ldap-example-admin-password'') \<mapsto>
            \<lparr>secretMeta = exampleMeta ''ldap-example-admin-password'',
             Data = [(''password'', ''hunter2'')]\<rparr>]\<rparr>)
         (''default'', ''example'')))
     = [(''default'', ''ldap-example-admin-password'') \<mapsto>
            \<lparr>secretMeta = exampleMeta ''ldap-example-admin-password'',
             Data = [(''password'', ''hunter2'')]\<rparr>]"
proof -
  let ?k = "(''default'', ''example'')"
  let ?n = "(''default'', ''ldap-example-admin-password'')"
  let ?s = "\<lparr>secretMeta = exampleMeta ''ldap-example-admin-password'',
             Data = [(''password'', ''hunter2'')]\<rparr>"
  let ?c2 = "exampleCluster\<lparr>secrets := [?n \<mapsto> ?s]\<rparr>"
  have name: "adminPasswordSecretName exampleDirectory = ?n"
    by (simp add: adminPasswordSecretName_def example_defs)
  have "fault exampleEnv GetDirectorySite = None
        \<and> directories exampleCluster ?k = Some exampleDirectory
        \<and> (ContainsFinalizer exampleDirectory FinalizerName
             \<or> fault exampleEnv AddFinalizerSite = None)
        \<and> DeletionTimestamp (dirMeta exampleDirectory) = None
        \<and> LDAPDirectory_ResolveReferences (envReader exampleEnv) exampleDirectory = (True, None)
        \<and> fault exampleEnv GetSecretSite = None
        \<and> secrets exampleCluster (adminPasswordSecretName exampleDirectory) = None
        \<and> Generate exampleEnv adminPasswordLength = Inr (replicate 32 (CHR ''x''))
        \<and> fault exampleEnv SetSecretOwnerSite = None
        \<and> fault exampleEnv CreateSecretSite = None"
    by (simp add: example_defs LDAPDirectory_ResolveReferences_def adminPasswordLength_def)
  then have "\<exists>s. secrets (snd (Reconcile exampleEnv exampleCluster ?k))
            (adminPasswordSecretName exampleDirectory) = Some s
        \<and> Data s = [(''password'', replicate 32 (CHR ''x''))]"
    using Reconcile_adminPassword_once [of exampleEnv exampleCluster ?k] by blast
  moreover have "directories ?c2 ?k = Some exampleDirectory
      \<and> secrets ?c2 (adminPasswordSecretName exampleDirectory) = Some ?s"
    by (simp add: name) (simp add: exampleCluster_def)
  then have "secrets (snd (Reconcile exampleEnv ?c2 ?k)) = secrets ?c2"
    using Reconcile_adminPassword_once [of exampleEnv ?c2 ?k] by blast
  ultimately show ?thesis by (simp add: name)
qed

section \<open>The directory client: diff and patch\<close>

lemma map_of_applyModification:
  "map_of (applyModification m attrs) =
     (case m of
        AddAttribute name vs \<Rightarrow> (map_of attrs)(name \<mapsto> vs)
      | DeleteAttribute name \<Rightarrow> (map_of attrs)(name := None)
      | ReplaceAttribute name vs \<Rightarrow> (map_of attrs)(name \<mapsto> vs))"
  by (cases m) (simp_all add: AList.update_conv' AList.delete_conv')

lemma map_of_fold_attributeDiff:
  "map_of (fold applyModification (attributeDiff e d n) acc) =
     (if attributeDiff e d n = [] then map_of acc else (map_of acc)(n := map_of d n))"
  by (auto simp: attributeDiff_def AList.update_conv' AList.delete_conv' split: option.splits)

lemma map_of_fold_diff:
  "map_of (fold applyModification (concat (map (attributeDiff e d) ns)) acc) k =
     (if k \<in> set ns \<and> attributeDiff e d k \<noteq> [] then map_of d k else map_of acc k)"
proof (induction ns arbitrary: acc)
  case Nil
  then show ?case by simp
next
  case (Cons n ns)
  show ?case
    by (simp add: Cons.IH map_of_fold_attributeDiff)
qed

lemma attributeDiff_nonempty_key:
  assumes "attributeDiff e d k \<noteq> []"
  shows "k \<in> fst ` set e \<or> k \<in> fst ` set d"
proof (rule ccontr)
  assume "\<not> (k \<in> fst ` set e \<or> k \<in> fst ` set d)"
  then have "map_of e k = None" "map_of d k = None"
    by (simp_all add: map_of_eq_None_iff)
  then have "attributeDiff e d k = []"
    by (simp add: attributeDiff_def)
  with assms show False by simp
qed

lemma attributeDiff_empty_same:
  "attributeDiff e d k = [] \<Longrightarrow> map_option set (map_of e k) = map_option set (map_of d k)"
  by (auto simp: attributeDiff_def split: option.splits if_splits)

lemma map_of_patched:
  "map_option set (map_of (fold applyModification (entryDiff e d) e) k)
     = map_option set (map_of d k)"
proof (cases "attributeDiff e d k = []")
  case True
  then show ?thesis
    by (simp add: entryDiff_def map_of_fold_diff attributeDiff_empty_same)
next
  case False
  then have "k \<in> set (remdups (map fst e @ map fst d))"
    using attributeDiff_nonempty_key [OF False] by auto
  with False show ?thesis
    by (simp add: entryDiff_def map_of_fold_diff)
qed

lemma patched_None:
  "map_of d k = None \<Longrightarrow> map_of (fold applyModification (entryDiff e d) e) k = None"
  using map_of_patched [of e d k] by simp

lemma entryDiff_same: "entryDiff a a = []"
  by (auto simp: entryDiff_def attributeDiff_def split: option.splits)

lemma createOrUpdateEntry_stored:
  assumes "connectError server = None"
  shows "\<exists>stored. entries (snd (createOrUpdateEntry server entry)) (entryDN entry) = Some stored
     \<and> (\<forall>name. map_option set (map_of stored name)
                 = map_option set (map_of (entryAttributes entry) name))"
  using assms
  by (auto simp: createOrUpdateEntry_def map_of_patched split: option.splits)

text \<open>
  C4. \<^verbatim>\<open>createOrUpdateEntry\<close> is an idempotent upsert: on a directory with no entry at the
  name it creates the entry and returns true; called again with the same entry it returns
  false and the entry stored is still the one given. More generally, a call with an entry
  equal to the stored one returns false, sends no modification and changes nothing, and
  after any call the stored entry has the attributes of the desired entry, with the same
  values.
\<close>

theorem createOrUpdateEntry_idempotent:
  assumes "connectError server = None"
  shows
    "(entries server (entryDN entry) = None
      \<longrightarrow> fst (createOrUpdateEntry server entry) = (True, None)
        \<and> getEntry (snd (createOrUpdateEntry server entry)) (entryDN entry) = Inr entry
        \<and> fst (createOrUpdateEntry (snd (createOrUpdateEntry server entry)) entry) = (False, None)
        \<and> getEntry (snd (createOrUpdateEntry (snd (createOrUpdateEntry server entry)) entry))
              (entryDN entry) = Inr entry)
     \<and> (entries server (entryDN entry) = Some (entryAttributes entry)
      \<longrightarrow> fst (createOrUpdateEntry server entry) = (False, None)
        \<and> entryDiff (entryAttributes entry) (entryAttributes entry) = []
        \<and> snd (createOrUpdateEntry server entry) = server)
     \<and> (\<exists>stored. entries (snd (createOrUpdateEntry server entry)) (entryDN entry) = Some stored
        \<and> (\<forall>name. map_option set (map_of stored name)
                 = map_option set (map_of (entryAttributes entry) name)))"
proof (intro conjI impI)
  assume absent: "entries server (entryDN entry) = None"
  let ?s1 = "snd (createOrUpdateEntry server entry)"
  have s1: "?s1 = server\<lparr>entries := (entries server)(entryDN entry \<mapsto> entryAttributes entry)\<rparr>"
    using assms absent by (simp add: createOrUpdateEntry_def)
  show "fst (createOrUpdateEntry server entry) = (True, None)"
    using assms absent by (simp add: createOrUpdateEntry_def)
  show "getEntry ?s1 (entryDN entry) = Inr entry"
    using assms by (simp add: s1 getEntry_def)
  show "fst (createOrUpdateEntry ?s1 entry) = (False, None)"
    unfolding s1 using assms by (simp add: createOrUpdateEntry_def)
  show "getEntry (snd (createOrUpdateEntry ?s1 entry)) (entryDN entry) = Inr entry"
    unfolding s1 using assms by (simp add: createOrUpdateEntry_def getEntry_def entryDiff_same)
next
  assume same: "entries server (entryDN entry) = Some (entryAttributes entry)"
  show "fst (createOrUpdateEntry server entry) = (False, None)"
    using assms same by (simp add: createOrUpdateEntry_def)
  show "entryDiff (entryAttributes entry) (entryAttributes entry) = []"
    by (rule entryDiff_same)
  have "(entries server)(entryDN entry \<mapsto> entryAttributes entry) = entries server"
    using same by (rule map_upd_triv)
  then show "snd (createOrUpdateEntry server entry) = server"
    using assms same by (simp add: createOrUpdateEntry_def entryDiff_same)
next
  show "\<exists>stored. entries (snd (createOrUpdateEntry server entry)) (entryDN entry) = Some stored
        \<and> (\<forall>name. map_option set (map_of stored name)
                 = map_option set (map_of (entryAttributes entry) name))"
    using assms by (rule createOrUpdateEntry_stored)
qed

theorem createOrUpdateEntry_idempotent_witness:
  "fst (createOrUpdateEntry exampleServer (mapEntry exampleHash (usersOU ''Test Users'')))
     = (True, None)
   \<and> fst (createOrUpdateEntry
        (snd (createOrUpdateEntry exampleServer (mapEntry exampleHash (usersOU ''Test Users''))))
        (mapEntry exampleHash (usersOU ''Test Users''))) = (False, None)
   \<and> getEntry (snd (createOrUpdateEntry
        (snd (createOrUpdateEntry exampleServer (mapEntry exampleHash (usersOU ''Test Users''))))
        (mapEntry exampleHash (usersOU ''Test Users''))))
        ''ou=users,dc=example,dc=com''
      = Inr \<lparr>entryDN = ''ou=users,dc=example,dc=com'',
             entryAttributes = [(''ou'', [''users'']), (''description'', [''Test Users''])]\<rparr>
   \<and> snd (createOrUpdateEntry
        (exampleServer\<lparr>entries := [''ou=users,dc=example,dc=com'' \<mapsto>
           [(''ou'', [''users'']), (''description'', [''Test Users''])]]\<rparr>)
        (mapEntry exampleHash (usersOU ''Test Users'')))
      = exampleServer\<lparr>entries := [''ou=users,dc=example,dc=com'' \<mapsto>
           [(''ou'', [''users'']), (''description'', [''Test Users''])]]\<rparr>"
proof -
  let ?e = "mapEntry exampleHash (usersOU ''Test Users'')"
  let ?s2 = "exampleServer\<lparr>entries := [''ou=users,dc=example,dc=com'' \<mapsto>
           [(''ou'', [''users'']), (''description'', [''Test Users''])]]\<rparr>"
  have e: "?e = \<lparr>entryDN = ''ou=users,dc=example,dc=com'',
             entryAttributes = [(''ou'', [''users'']), (''description'', [''Test Users''])]\<rparr>"
    by (simp add: usersOU_def optionalAttribute_def)
  have c: "connectError exampleServer = None" "connectError ?s2 = None"
    by (simp_all add: exampleServer_def)
  have absent: "entries exampleServer (entryDN ?e) = None"
    by (simp add: exampleServer_def)
  have same: "entries ?s2 (entryDN ?e) = Some (entryAttributes ?e)"
    by (simp add: e)
  from createOrUpdateEntry_idempotent [OF c(1), of ?e] absent
  have "fst (createOrUpdateEntry exampleServer ?e) = (True, None)
        \<and> fst (createOrUpdateEntry (snd (createOrUpdateEntry exampleServer ?e)) ?e) = (False, None)
        \<and> getEntry (snd (createOrUpdateEntry (snd (createOrUpdateEntry exampleServer ?e)) ?e))
              (entryDN ?e) = Inr ?e"
    by blast
  moreover from createOrUpdateEntry_idempotent [OF c(2), of ?e] same
  have "snd (createOrUpdateEntry ?s2 ?e) = ?s2"
    by blast
  ultimately show ?thesis by (simp add: e)
qed

text \<open>
  C5. An attribute that the desired entry does not have is not in the stored entry after
  \<^verbatim>\<open>createOrUpdateEntry\<close>, whatever the entry stored before held for it. The mapper gives
  no \<^verbatim>\<open>description\<close> to an organizational unit or group whose description is empty and no
  \<^verbatim>\<open>mail\<close> to a user whose email is empty, so these attributes are removed by the call; and
  no stored \<^verbatim>\<open>description\<close> or \<^verbatim>\<open>mail\<close> of a mapped entry has the empty string as a
  value.
\<close>

theorem createOrUpdateEntry_removes_absent:
  assumes "connectError server = None"
  shows
    "(\<forall>entry name. map_of (entryAttributes entry) name = None
       \<longrightarrow> (\<exists>stored. entries (snd (createOrUpdateEntry server entry)) (entryDN entry)
                       = Some stored
              \<and> map_of stored name = None))
     \<and> (\<forall>hash e dn name members.
          e = OrganizationalUnit dn name [] \<or> e = Group dn name [] members
       \<longrightarrow> (\<exists>stored. entries (snd (createOrUpdateEntry server (mapEntry hash e))) dn = Some stored
              \<and> map_of stored ''description'' = None))
     \<and> (\<forall>hash dn username name surname password.
          \<exists>stored. entries (snd (createOrUpdateEntry server
                       (mapEntry hash (User dn username name surname [] password)))) dn
                     = Some stored
              \<and> map_of stored ''mail'' = None)
     \<and> (\<forall>hash e stored vs.
          entries (snd (createOrUpdateEntry server (mapEntry hash e)))
             (entryDN (mapEntry hash e)) = Some stored
          \<and> (map_of stored ''description'' = Some vs \<or> map_of stored ''mail'' = Some vs)
       \<longrightarrow> [] \<notin> set vs)"
proof -
  have gen: "\<exists>stored. entries (snd (createOrUpdateEntry server entry)) (entryDN entry) = Some stored
              \<and> map_of stored name = None"
    if none: "map_of (entryAttributes entry) name = None" for entry name
  proof -
    from createOrUpdateEntry_stored [OF assms, of entry] obtain stored where
      st: "entries (snd (createOrUpdateEntry server entry)) (entryDN entry) = Some stored"
      and eq: "\<forall>name. map_option set (map_of stored name)
                 = map_option set (map_of (entryAttributes entry) name)"
      by blast
    from eq none have "map_option set (map_of stored name) = None" by simp
    then have "map_of stored name = None" by simp
    with st show ?thesis by blast
  qed
  have p1: "\<forall>entry name. map_of (entryAttributes entry) name = None
       \<longrightarrow> (\<exists>stored. entries (snd (createOrUpdateEntry server entry)) (entryDN entry)
                       = Some stored
              \<and> map_of stored name = None)"
    using gen by blast
  have p2: "\<forall>hash e dn name members.
          e = OrganizationalUnit dn name [] \<or> e = Group dn name [] members
       \<longrightarrow> (\<exists>stored. entries (snd (createOrUpdateEntry server (mapEntry hash e))) dn = Some stored
              \<and> map_of stored ''description'' = None)"
  proof (intro allI impI)
    fix hash e dn name members
    assume e: "e = OrganizationalUnit dn name [] \<or> e = Group dn name [] members"
    then have "map_of (entryAttributes (mapEntry hash e)) ''description'' = None"
      and "entryDN (mapEntry hash e) = dn"
      by (auto simp: optionalAttribute_def)
    with gen [of "mapEntry hash e" "''description''"]
    show "\<exists>stored. entries (snd (createOrUpdateEntry server (mapEntry hash e))) dn = Some stored
              \<and> map_of stored ''description'' = None"
      by simp
  qed
  have p3: "\<forall>hash dn username name surname password.
          \<exists>stored. entries (snd (createOrUpdateEntry server
                       (mapEntry hash (User dn username name surname [] password)))) dn
                     = Some stored
              \<and> map_of stored ''mail'' = None"
  proof (intro allI)
    fix hash dn username name surname password
    let ?e = "mapEntry hash (User dn username name surname [] password)"
    have "map_of (entryAttributes ?e) ''mail'' = None" and "entryDN ?e = dn"
      by (simp_all add: optionalAttribute_def)
    with gen [of ?e "''mail''"]
    show "\<exists>stored. entries (snd (createOrUpdateEntry server ?e)) dn = Some stored
              \<and> map_of stored ''mail'' = None"
      by simp
  qed
  have mapped: "[] \<notin> set vs"
    if "map_of (entryAttributes (mapEntry hash e)) ''description'' = Some vs
        \<or> map_of (entryAttributes (mapEntry hash e)) ''mail'' = Some vs" for hash e vs
    using that by (cases e) (auto simp: optionalAttribute_def split: if_splits)
  have p4: "\<forall>hash e stored vs.
          entries (snd (createOrUpdateEntry server (mapEntry hash e)))
             (entryDN (mapEntry hash e)) = Some stored
          \<and> (map_of stored ''description'' = Some vs \<or> map_of stored ''mail'' = Some vs)
       \<longrightarrow> [] \<notin> set vs"
  proof (intro allI impI, elim conjE)
    fix hash e stored vs
    assume st: "entries (snd (createOrUpdateEntry server (mapEntry hash e)))
             (entryDN (mapEntry hash e)) = Some stored"
      and v: "map_of stored ''description'' = Some vs \<or> map_of stored ''mail'' = Some vs"
    from createOrUpdateEntry_stored [OF assms, of "mapEntry hash e"] st
    have eq: "\<And>name. map_option set (map_of stored name)
                 = map_option set (map_of (entryAttributes (mapEntry hash e)) name)"
      by simp
    from v obtain a where a: "a = ''description'' \<or> a = ''mail''" "map_of stored a = Some vs"
      by blast
    from eq [of a] a(2)
    obtain vs' where vs': "map_of (entryAttributes (mapEntry hash e)) a = Some vs'"
        "set vs' = set vs"
      by (cases "map_of (entryAttributes (mapEntry hash e)) a") auto
    from a(1) vs'(1) have "[] \<notin> set vs'"
      using mapped [of hash e vs'] by blast
    with vs'(2) show "[] \<notin> set vs" by simp
  qed
  show ?thesis by (rule conjI [OF p1 conjI [OF p2 conjI [OF p3 p4]]])
qed

theorem createOrUpdateEntry_removes_absent_witness:
  "(\<exists>stored. entries (snd (createOrUpdateEntry
        (exampleServer\<lparr>entries := [''ou=users,dc=example,dc=com'' \<mapsto>
           [(''ou'', [''users'']), (''description'', [''Test Users''])]]\<rparr>)
        (mapEntry exampleHash (usersOU [])))) ''ou=users,dc=example,dc=com'' = Some stored
      \<and> map_of stored ''description'' = None)
   \<and> (\<exists>stored. entries (snd (createOrUpdateEntry
        (exampleServer\<lparr>entries := [''uid=john,dc=example,dc=com'' \<mapsto>
           [(''cn'', [''John Doe'']), (''sn'', [''Doe'']), (''uid'', [''john'']),
            (''mail'', [''john@example.com''])]]\<rparr>)
        (mapEntry exampleHash (johnUser [])))) ''uid=john,dc=example,dc=com'' = Some stored
      \<and> map_of stored ''mail'' = None)
   \<and> entries (snd (createOrUpdateEntry exampleServer
        (mapEntry exampleHash (usersOU ''Test Users'')))) ''ou=users,dc=example,dc=com''
      = Some [(''ou'', [''users'']), (''description'', [''Test Users''])]
   \<and> [] \<notin> set [''Test Users'']"
proof -
  let ?s1 = "exampleServer\<lparr>entries := [''ou=users,dc=example,dc=com'' \<mapsto>
           [(''ou'', [''users'']), (''description'', [''Test Users''])]]\<rparr>"
  let ?s2 = "exampleServer\<lparr>entries := [''uid=john,dc=example,dc=com'' \<mapsto>
           [(''cn'', [''John Doe'']), (''sn'', [''Doe'']), (''uid'', [''john'']),
            (''mail'', [''john@example.com''])]]\<rparr>"
  have c: "connectError ?s1 = None" "connectError ?s2 = None" "connectError exampleServer = None"
    by (simp_all add: exampleServer_def)
  have "usersOU [] = OrganizationalUnit ''ou=users,dc=example,dc=com'' ''users'' []
      \<or> usersOU [] = Group ''ou=users,dc=example,dc=com'' ''users'' [] []"
    by (simp add: usersOU_def)
  with createOrUpdateEntry_removes_absent [OF c(1)]
  have w1: "\<exists>stored. entries (snd (createOrUpdateEntry ?s1 (mapEntry exampleHash (usersOU []))))
        ''ou=users,dc=example,dc=com'' = Some stored \<and> map_of stored ''description'' = None"
    by blast
  from createOrUpdateEntry_removes_absent [OF c(2)]
  have w2: "\<exists>stored. entries (snd (createOrUpdateEntry ?s2 (mapEntry exampleHash (johnUser []))))
        ''uid=john,dc=example,dc=com'' = Some stored \<and> map_of stored ''mail'' = None"
    unfolding johnUser_def by blast
  have st: "entries (snd (createOrUpdateEntry exampleServer
        (mapEntry exampleHash (usersOU ''Test Users''))))
        (entryDN (mapEntry exampleHash (usersOU ''Test Users'')))
      = Some [(''ou'', [''users'']), (''description'', [''Test Users''])]"
    by (simp add: createOrUpdateEntry_def exampleServer_def usersOU_def optionalAttribute_def)
  have "map_of [(''ou'', [''users'']), (''description'', [''Test Users''])] ''description''
      = Some [''Test Users'']"
    by simp
  with createOrUpdateEntry_removes_absent [OF c(3)] st
  have w3: "[] \<notin> set [''Test Users'']"
    by blast
  from st have "entries (snd (createOrUpdateEntry exampleServer
        (mapEntry exampleHash (usersOU ''Test Users'')))) ''ou=users,dc=example,dc=com''
      = Some [(''ou'', [''users'']), (''description'', [''Test Users''])]"
    by (simp add: usersOU_def)
  with w1 w2 w3 show ?thesis by blast
qed

end
